theory Spec2Isabelle
  imports Main "HOL-Library.Sublist" "HOL-Library.Multiset"
begin

section \<open>JavaScript values\<close>

text \<open>
  The scrapers read fields of objects that come out of \<^verbatim>\<open>JSON.parse\<close> or out of a
  scraping library. A field holds \<^verbatim>\<open>undefined\<close> (the field is missing), \<^verbatim>\<open>null\<close>, a
  boolean, a number, a string or an array. Numbers are the integer-valued ones below
  \<open>2^53\<close> in absolute value (identifiers, counts, star ratings), so that their decimal
  form is the one \<^verbatim>\<open>String(n)\<close> prints. Nested objects as field values are not part of
  the model.
\<close>

datatype jsval =
    JUndefined
  | JNull
  | JBool bool
  | JNum int
  | JStr string
  | JArr "jsval list"

text \<open>ToBoolean, as used by \<^verbatim>\<open>if (x)\<close>, \<^verbatim>\<open>x || y\<close>, \<^verbatim>\<open>x && y\<close> and \<^verbatim>\<open>x ? a : b\<close>.\<close>

fun truthy :: "jsval \<Rightarrow> bool" where
  "truthy JUndefined = False"
| "truthy JNull = False"
| "truthy (JBool b) = b"
| "truthy (JNum n) = (n \<noteq> 0)"
| "truthy (JStr s) = (s \<noteq> [])"
| "truthy (JArr xs) = True"

text \<open>\<^verbatim>\<open>a || b\<close>\<close>

definition jsOr :: "jsval \<Rightarrow> jsval \<Rightarrow> jsval" where
  "jsOr a b = (if truthy a then a else b)"

definition digitChar :: "nat \<Rightarrow> char" where
  "digitChar d = ''0123456789'' ! d"

fun showNat :: "nat \<Rightarrow> string" where
  "showNat n = (if n < 10 then [digitChar n] else showNat (n div 10) @ [digitChar (n mod 10)])"

declare showNat.simps [simp del]

definition showInt :: "int \<Rightarrow> string" where
  "showInt i = (if i < 0 then CHR ''-'' # showNat (nat (- i)) else showNat (nat i))"

text \<open>
  ToString, as applied by a template literal \<^verbatim>\<open>`${x}`\<close>, by \<^verbatim>\<open>String(x)\<close>, by string
  concatenation and by a property key \<^verbatim>\<open>obj[x]\<close>. \<open>arrayJoin sep xs\<close> is
  \<^verbatim>\<open>xs.join(sep)\<close>: \<^verbatim>\<open>undefined\<close> and \<^verbatim>\<open>null\<close> elements print as the empty string.
\<close>

fun toString :: "jsval \<Rightarrow> string"
  and arrayJoin :: "string \<Rightarrow> jsval list \<Rightarrow> string" where
  "toString JUndefined = ''undefined''"
| "toString JNull = ''null''"
| "toString (JBool b) = (if b then ''true'' else ''false'')"
| "toString (JNum n) = showInt n"
| "toString (JStr s) = s"
| "toString (JArr xs) = arrayJoin '','' xs"
| "arrayJoin sep [] = []"
| "arrayJoin sep (x # xs) =
     (if x = JUndefined \<or> x = JNull then [] else toString x)
     @ (if xs = [] then [] else sep @ arrayJoin sep xs)"

text \<open>
  \<^verbatim>\<open>a === b\<close>: primitives are compared by type and value; two arrays are equal only when
  they are the same object, which two fields of a parsed record never are.
\<close>

fun strictEq :: "jsval \<Rightarrow> jsval \<Rightarrow> bool" where
  "strictEq (JArr xs) b = False"
| "strictEq a b = (a = b)"

text \<open>Exceptions of the run time and of the collaborators.\<close>

datatype error =
    TypeError
  | RangeError
  | ProviderError string
  | WriteError string

section \<open>Google Play, worldwide: deduplication\<close>

text \<open>
  A review as the Google Play client returns it, with the \<open>country\<close> tag the scraper adds.
\<close>

record greview =
  userName :: jsval
  "text" :: jsval
  date :: jsval
  score :: jsval
  helpfulCount :: jsval
  replyDate :: jsval
  replyText :: jsval
  country :: jsval

text \<open>\<^verbatim>\<open>`${review.userName}_${review.text}_${review.date}`\<close>\<close>

definition reviewKey :: "greview \<Rightarrow> string" where
  "reviewKey review =
     toString (greview.userName review) @ ''_'' @ toString (greview.text review)
       @ ''_'' @ toString (greview.date review)"

text \<open>
  The loop of \<^verbatim>\<open>removeDuplicates\<close>, from a state of the set \<open>seen\<close> and the array
  \<open>unique\<close>.
\<close>

fun removeDuplicatesLoop :: "string set \<Rightarrow> greview list \<Rightarrow> greview list \<Rightarrow> greview list" where
  "removeDuplicatesLoop seen unique [] = unique"
| "removeDuplicatesLoop seen unique (review # reviews) =
     (let key = reviewKey review in
      if key \<notin> seen
      then removeDuplicatesLoop (insert key seen) (unique @ [review]) reviews
      else removeDuplicatesLoop seen unique reviews)"

definition removeDuplicates :: "greview list \<Rightarrow> greview list" where
  "removeDuplicates reviews = removeDuplicatesLoop {} [] reviews"

text \<open>The fingerprint of the specification: the triple (author, body text, date).\<close>

definition fingerprint :: "greview \<Rightarrow> jsval \<times> jsval \<times> jsval" where
  "fingerprint r = (greview.userName r, greview.text r, greview.date r)"


section \<open>Google Play, worldwide: fetching a country, scheduling the countries\<close>








definition COUNTRIES :: "string list" where
  "COUNTRIES =
    [''us'', ''gb'', ''ca'', ''au'', ''de'', ''fr'', ''it'', ''es'', ''nl'', ''jp'', ''kr'', ''br'', ''mx'', ''in'', ''ru'',
     ''at'', ''be'', ''bg'', ''hr'', ''cy'', ''cz'', ''dk'', ''ee'', ''fi'', ''gr'', ''hu'', ''ie'', ''lv'', ''lt'', ''lu'',
     ''mt'', ''pl'', ''pt'', ''ro'', ''sk'', ''si'', ''se'', ''no'', ''ch'', ''is'',
     ''cn'', ''hk'', ''tw'', ''sg'', ''my'', ''th'', ''ph'', ''id'', ''vn'', ''nz'',
     ''ar'', ''cl'', ''co'', ''pe'', ''uy'', ''ve'', ''cr'', ''pa'', ''gt'', ''sv'', ''hn'', ''ni'',
     ''ae'', ''sa'', ''il'', ''tr'', ''za'', ''eg'', ''ma'', ''ng'', ''ke'', ''gh'',
     ''pk'', ''bd'', ''lk'', ''np'']"


section \<open>Google Play, worldwide: sorting and the two output representations\<close>

text \<open>
  \<^verbatim>\<open>new Date(v)\<close>: the time value in milliseconds, or \<open>None\<close> for an invalid date. A
  string goes through \<^verbatim>\<open>Date.parse\<close>, which is a parameter here (\<open>None\<close> where it gives
  \<^verbatim>\<open>NaN\<close>); an array goes through its string form; the other values go through ToNumber.
  The constructor clips the result to the range of time values.
\<close>

definition timeClip :: "int \<Rightarrow> int option" where
  "timeClip t = (if \<bar>t\<bar> \<le> 8640000000000000 then Some t else None)"

fun newDate :: "(string \<Rightarrow> int option) \<Rightarrow> jsval \<Rightarrow> int option" where
  "newDate dateParse JUndefined = None"
| "newDate dateParse JNull = Some 0"
| "newDate dateParse (JBool b) = Some (if b then 1 else 0)"
| "newDate dateParse (JNum n) = timeClip n"
| "newDate dateParse (JStr s) = Option.bind (dateParse s) timeClip"
| "newDate dateParse (JArr xs) = Option.bind (dateParse (toString (JArr xs))) timeClip"

text \<open>
  The comparator \<^verbatim>\<open>(a, b) => new Date(b.date) - new Date(a.date)\<close>. The difference is
  \<^verbatim>\<open>NaN\<close> when one of the dates is invalid, and the sort reads \<^verbatim>\<open>NaN\<close> as \<open>0\<close>.
\<close>

definition dateCompare :: "(string \<Rightarrow> int option) \<Rightarrow> greview \<Rightarrow> greview \<Rightarrow> int" where
  "dateCompare dateParse a b =
     (case (newDate dateParse (greview.date b), newDate dateParse (greview.date a)) of
        (Some tb, Some ta) \<Rightarrow> tb - ta
      | _ \<Rightarrow> 0)"

text \<open>
  \<^verbatim>\<open>Array.prototype.sort(compare)\<close> is stable. For a comparator that is a consistent
  ordering the language fixes the result, and it is the result of the stable insertion sort
  below; for an inconsistent comparator (here: some date is invalid) the language leaves the
  order to the implementation, and the function below is one admissible choice.
\<close>

fun insertSorted :: "('a \<Rightarrow> 'a \<Rightarrow> int) \<Rightarrow> 'a \<Rightarrow> 'a list \<Rightarrow> 'a list" where
  "insertSorted compare x [] = [x]"
| "insertSorted compare x (y # ys) =
     (if compare x y \<le> 0 then x # y # ys else y # insertSorted compare x ys)"

definition jsSort :: "('a \<Rightarrow> 'a \<Rightarrow> int) \<Rightarrow> 'a list \<Rightarrow> 'a list" where
  "jsSort compare xs = foldr (insertSorted compare) xs []"

text \<open>\<^verbatim>\<open>array.map(f)\<close> for a callback that may throw: the first exception ends the map.\<close>

fun mapE :: "('a \<Rightarrow> error + 'b) \<Rightarrow> 'a list \<Rightarrow> error + 'b list" where
  "mapE f [] = Inr []"
| "mapE f (x # xs) =
     (case f x of
        Inl e \<Rightarrow> Inl e
      | Inr y \<Rightarrow> (case mapE f xs of Inl e \<Rightarrow> Inl e | Inr ys \<Rightarrow> Inr (y # ys)))"

text \<open>
  \<^verbatim>\<open>v.replace(/"/g, '""')\<close>: only a string has the method; on any other value the call
  throws a \<^verbatim>\<open>TypeError\<close>.
\<close>

definition doubleQuotes :: "string \<Rightarrow> string" where
  "doubleQuotes s = concat (map (\<lambda>c. if c = CHR 0x22 then [CHR 0x22, CHR 0x22] else [c]) s)"

fun replaceQuotes :: "jsval \<Rightarrow> error + string" where
  "replaceQuotes (JStr s) = Inr (doubleQuotes s)"
| "replaceQuotes v = Inl TypeError"

text \<open>\<^verbatim>\<open>lines.join(sep)\<close> on an array of strings.\<close>

fun joinLines :: "string \<Rightarrow> string list \<Rightarrow> string" where
  "joinLines sep [] = []"
| "joinLines sep [l] = l"
| "joinLines sep (l # ls) = l @ sep @ joinLines sep ls"

text \<open>One line of the CSV of \<^verbatim>\<open>scrapeAllReviewsGlobal\<close>.\<close>

definition quoted :: "string \<Rightarrow> string" where
  "quoted s = [CHR 0x22] @ s @ [CHR 0x22]"

definition csvRowGlobal :: "greview \<Rightarrow> error + string" where
  "csvRowGlobal r =
     (case replaceQuotes (jsOr (greview.country r) (JStr ''unknown'')) of
        Inl e \<Rightarrow> Inl e
      | Inr countryCol \<Rightarrow>
     (case replaceQuotes (jsOr (greview.userName r) (JStr [])) of
        Inl e \<Rightarrow> Inl e
      | Inr userNameCol \<Rightarrow>
     (case replaceQuotes (jsOr (greview.text r) (JStr [])) of
        Inl e \<Rightarrow> Inl e
      | Inr textCol \<Rightarrow>
     (case replaceQuotes (jsOr (greview.replyText r) (JStr [])) of
        Inl e \<Rightarrow> Inl e
      | Inr replyTextCol \<Rightarrow>
          Inr (joinLines '',''
            [quoted (toString (jsOr (greview.date r) (JStr []))),
             quoted countryCol,
             quoted userNameCol,
             quoted (toString (jsOr (greview.score r) (JStr []))),
             quoted textCol,
             quoted (toString (jsOr (greview.helpfulCount r) (JStr []))),
             quoted (toString (jsOr (greview.replyDate r) (JStr []))),
             quoted replyTextCol])))))"

definition csvGlobal :: "greview list \<Rightarrow> error + string" where
  "csvGlobal uniqueReviews =
     (case mapE csvRowGlobal uniqueReviews of
        Inl e \<Rightarrow> Inl e
      | Inr rows \<Rightarrow>
          Inr (''Date,Country,User Name,Score,Review Text,Helpful Count,Reply Date,Reply Text''
               @ [CHR 0x0A] @ joinLines [CHR 0x0A] rows))"

text \<open>
  One object of the JSON of \<^verbatim>\<open>scrapeAllReviewsGlobal\<close>. The identifier is
  \<^verbatim>\<open>google_play_\<close> followed by a stamp made of the clock and a random number, which is
  an input here.
\<close>

record gcanonical =
  id' :: string
  author :: jsval
  rating :: jsval
  review :: jsval
  date :: jsval
  helpful :: jsval
  reply_date :: jsval
  reply_text :: jsval
  platform :: string
  country :: jsval

definition jsonEntryGlobal :: "string \<Rightarrow> greview \<Rightarrow> gcanonical" where
  "jsonEntryGlobal stamp r =
     \<lparr> id' = ''google_play_'' @ stamp,
       author = jsOr (greview.userName r) (JStr ''Anonymous''),
       rating = jsOr (greview.score r) JNull,
       review = jsOr (greview.text r) (JStr []),
       date = jsOr (greview.date r) (JStr []),
       helpful = jsOr (greview.helpfulCount r) (JNum 0),
       reply_date = jsOr (greview.replyDate r) (JStr []),
       reply_text = jsOr (greview.replyText r) (JStr []),
       platform = ''google_play'',
       country = jsOr (greview.country r) (JStr ''unknown'') \<rparr>"

text \<open>\<open>stamps i\<close> is the stamp drawn for the \<open>i\<close>-th element of the map.\<close>

definition jsonDataGlobal :: "(nat \<Rightarrow> string) \<Rightarrow> greview list \<Rightarrow> gcanonical list" where
  "jsonDataGlobal stamps uniqueReviews =
     map (\<lambda>(i, r). jsonEntryGlobal (stamps i) r) (enumerate 0 uniqueReviews)"

text \<open>
  The part of \<^verbatim>\<open>scrapeAllReviewsGlobal\<close> between the end of the fetching and the writing
  of the files: deduplicate, sort, build the two representations.
\<close>

definition sortedReviewsGlobal :: "(string \<Rightarrow> int option) \<Rightarrow> greview list \<Rightarrow> greview list" where
  "sortedReviewsGlobal dateParse allGlobalReviews =
     jsSort (dateCompare dateParse) (removeDuplicates allGlobalReviews)"

definition outputsGlobal ::
  "(string \<Rightarrow> int option) \<Rightarrow> (nat \<Rightarrow> string) \<Rightarrow> greview list \<Rightarrow> error + (string \<times> gcanonical list)" where
  "outputsGlobal dateParse stamps allGlobalReviews =
     (case csvGlobal (sortedReviewsGlobal dateParse allGlobalReviews) of
        Inl e \<Rightarrow> Inl e
      | Inr csv \<Rightarrow>
          Inr (csv, jsonDataGlobal stamps (sortedReviewsGlobal dateParse allGlobalReviews)))"


text \<open>The time value of the date of a review, for stating the order of the output.\<close>

definition reviewTime :: "(string \<Rightarrow> int option) \<Rightarrow> greview \<Rightarrow> int" where
  "reviewTime dateParse r =
     (case newDate dateParse (greview.date r) of Some t \<Rightarrow> t | None \<Rightarrow> 0)"

section \<open>App Store, one country: fetching, the two representations, writing\<close>

text \<open>
  The date of an App Store review is an ordinary value or a \<^verbatim>\<open>Date\<close> object, which holds
  a time value or is invalid (\<open>None\<close>).
\<close>

datatype datefield =
    Plain jsval
  | DateObject "int option"

fun truthyDate :: "datefield \<Rightarrow> bool" where
  "truthyDate (Plain v) = truthy v"
| "truthyDate (DateObject t) = True"

record areview =
  userName :: jsval
  score :: jsval
  title :: jsval
  "text" :: jsval
  version :: jsval
  helpfulCount :: jsval
  updated :: datefield
  date :: datefield
  country :: jsval

text \<open>
  The date handling shared by the CSV and the JSON callbacks. \<open>isoDay t\<close> stands for
  \<^verbatim>\<open>d.toISOString().split('T')[0]\<close> on a valid date with time value \<open>t\<close>; on an invalid
  date \<^verbatim>\<open>toISOString\<close> throws a \<^verbatim>\<open>RangeError\<close>.
\<close>

definition toISODay :: "(int \<Rightarrow> string) \<Rightarrow> int option \<Rightarrow> error + string" where
  "toISODay isoDay t = (case t of None \<Rightarrow> Inl RangeError | Some tv \<Rightarrow> Inr (isoDay tv))"

definition formatDate :: "(int \<Rightarrow> string) \<Rightarrow> areview \<Rightarrow> error + string" where
  "formatDate isoDay r =
     (let dateField = (if truthyDate (areview.updated r) then areview.updated r else areview.date r) in
      if truthyDate dateField
      then (case dateField of
              DateObject t \<Rightarrow> toISODay isoDay t
            | Plain (JStr s) \<Rightarrow> Inr s
            | Plain v \<Rightarrow> Inr (toString v))
      else Inr [])"

text \<open>
  The \<^verbatim>\<open>do ... while (pageCount < 200)\<close> loop of \<^verbatim>\<open>scrapeAllReviews\<close>, from a state of
  \<open>allReviews\<close> and \<open>pageCount\<close>. \<open>store page\<close> is the outcome of \<^verbatim>\<open>store.reviews\<close> for
  that page of the country \<^verbatim>\<open>us\<close> (each page is requested once): an exception, or a value
  that is \<open>None\<close> when it is not an array. An exception leaves the loop for the handler of
  the whole function. The loop returns the final \<open>allReviews\<close> and \<open>pageCount\<close>.
\<close>

function fetchLoop ::
  "(nat \<Rightarrow> error + areview list option) \<Rightarrow> areview list \<Rightarrow> nat \<Rightarrow> error + (areview list \<times> nat)" where
  "fetchLoop store allReviews pageCount =
     (case store (pageCount + 1) of
        Inl e \<Rightarrow> Inl e
      | Inr None \<Rightarrow> Inr (allReviews, pageCount + 1)
      | Inr (Some reviews) \<Rightarrow>
          if length reviews > 0
          then (if pageCount + 1 < 200
                then fetchLoop store (allReviews @ reviews) (pageCount + 1)
                else Inr (allReviews @ reviews, pageCount + 1))
          else Inr (allReviews, pageCount + 1))"
  by pat_completeness auto
termination
  by (relation "measure (\<lambda>(store, allReviews, pageCount). 200 - pageCount)") auto

declare fetchLoop.simps [simp del]

definition csvRow :: "(int \<Rightarrow> string) \<Rightarrow> areview \<Rightarrow> error + string" where
  "csvRow isoDay r =
     (case formatDate isoDay r of
        Inl e \<Rightarrow> Inl e
      | Inr dateCol \<Rightarrow>
     (case replaceQuotes (jsOr (areview.userName r) (JStr [])) of
        Inl e \<Rightarrow> Inl e
      | Inr userNameCol \<Rightarrow>
     (case replaceQuotes (jsOr (areview.title r) (JStr [])) of
        Inl e \<Rightarrow> Inl e
      | Inr titleCol \<Rightarrow>
     (case replaceQuotes (jsOr (areview.text r) (JStr [])) of
        Inl e \<Rightarrow> Inl e
      | Inr textCol \<Rightarrow>
     (case replaceQuotes (jsOr (areview.version r) (JStr [])) of
        Inl e \<Rightarrow> Inl e
      | Inr versionCol \<Rightarrow>
          Inr (joinLines '',''
            [quoted dateCol,
             quoted userNameCol,
             quoted (toString (jsOr (areview.score r) (JStr []))),
             quoted titleCol,
             quoted textCol,
             quoted versionCol,
             quoted (toString (jsOr (areview.helpfulCount r) (JStr [])))]))))))"

definition csvText :: "(int \<Rightarrow> string) \<Rightarrow> areview list \<Rightarrow> error + string" where
  "csvText isoDay allReviews =
     (case mapE (csvRow isoDay) allReviews of
        Inl e \<Rightarrow> Inl e
      | Inr rows \<Rightarrow>
          Inr (''Date,User Name,Score,Title,Review Text,Version,Helpful Count''
               @ [CHR 0x0A] @ joinLines [CHR 0x0A] rows))"

text \<open>
  One object of \<^verbatim>\<open>jsonData\<close>. The identifier is \<^verbatim>\<open>app_store_\<close> followed by a stamp made
  of the clock and a random number, which is an input here.
\<close>

record acanonical =
  id' :: string
  author :: jsval
  rating :: jsval
  review :: jsval
  title :: jsval
  date :: string
  helpful :: jsval
  version :: jsval
  platform :: string

definition jsonEntry :: "(int \<Rightarrow> string) \<Rightarrow> string \<Rightarrow> areview \<Rightarrow> error + acanonical" where
  "jsonEntry isoDay stamp r =
     (case formatDate isoDay r of
        Inl e \<Rightarrow> Inl e
      | Inr dateCol \<Rightarrow>
          Inr \<lparr> id' = ''app_store_'' @ stamp,
                author = jsOr (areview.userName r) (JStr ''Anonymous''),
                rating = jsOr (areview.score r) JNull,
                review = jsOr (areview.text r) (JStr []),
                title = jsOr (areview.title r) (JStr []),
                date = dateCol,
                helpful = jsOr (areview.helpfulCount r) (JNum 0),
                version = jsOr (areview.version r) (JStr []),
                platform = ''app_store'' \<rparr>)"

definition jsonData :: "(int \<Rightarrow> string) \<Rightarrow> (nat \<Rightarrow> string) \<Rightarrow> areview list \<Rightarrow> error + acanonical list" where
  "jsonData isoDay stamps allReviews =
     mapE (\<lambda>(i, r). jsonEntry isoDay (stamps i) r) (enumerate 0 allReviews)"

text \<open>
  The world the script acts on: the files written so far, and the trace of what the script
  did that matters here (calls of \<^verbatim>\<open>fs.writeFileSync\<close>, and the error printed by the
  handler of the function).
\<close>

datatype content =
    CsvContent string
  | JsonContent "acanonical list"

datatype event =
    WriteAttempt string
  | ConsoleError error

record world =
  files :: "string \<rightharpoonup> content"
  trace :: "event list"

text \<open>
  \<^verbatim>\<open>fs.writeFileSync(name, data)\<close>: \<open>diskFails name\<close> says whether the write of that file
  throws. The result is the exception, if any, and the world after the call.
\<close>

definition writeFileSync ::
  "(string \<Rightarrow> bool) \<Rightarrow> string \<Rightarrow> content \<Rightarrow> world \<Rightarrow> error option \<times> world" where
  "writeFileSync diskFails name data w =
     (if diskFails name
      then (Some (WriteError name), w\<lparr>trace := trace w @ [WriteAttempt name]\<rparr>)
      else (None, w\<lparr>files := (files w)(name \<mapsto> data), trace := trace w @ [WriteAttempt name]\<rparr>))"

text \<open>The \<^verbatim>\<open>catch (error)\<close> block of \<^verbatim>\<open>scrapeAllReviews\<close>.\<close>

definition catchAll :: "error \<Rightarrow> world \<Rightarrow> world" where
  "catchAll e w = w\<lparr>trace := trace w @ [ConsoleError e]\<rparr>"

definition csvFilename :: "string \<Rightarrow> string" where
  "csvFilename timestamp = ''mendi_apple-app-store_reviews_'' @ timestamp @ ''.csv''"

definition jsonFilename :: "string \<Rightarrow> string" where
  "jsonFilename timestamp = ''mendi_apple-app-store_reviews_'' @ timestamp @ ''.json''"

text \<open>
  The statements of \<^verbatim>\<open>scrapeAllReviews\<close> after the loop, up to the second write, inside
  the \<^verbatim>\<open>try\<close> of the function: build the CSV, write it, build the JSON, write it. The
  statistics printed afterwards change nothing in the files.
\<close>

definition saveReviews ::
  "(int \<Rightarrow> string) \<Rightarrow> (nat \<Rightarrow> string) \<Rightarrow> string \<Rightarrow> (string \<Rightarrow> bool) \<Rightarrow> areview list \<Rightarrow> world \<Rightarrow> world" where
  "saveReviews isoDay stamps timestamp diskFails allReviews w =
     (case csvText isoDay allReviews of
        Inl e \<Rightarrow> catchAll e w
      | Inr csv \<Rightarrow>
          (case writeFileSync diskFails (csvFilename timestamp) (CsvContent csv) w of
             (Some e, w1) \<Rightarrow> catchAll e w1
           | (None, w1) \<Rightarrow>
               (case jsonData isoDay stamps allReviews of
                  Inl e \<Rightarrow> catchAll e w1
                | Inr entries \<Rightarrow>
                    (case writeFileSync diskFails (jsonFilename timestamp) (JsonContent entries) w1 of
                       (Some e, w2) \<Rightarrow> catchAll e w2
                     | (None, w2) \<Rightarrow> w2))))"

definition scrapeAllReviews ::
  "(nat \<Rightarrow> error + areview list option) \<Rightarrow> (int \<Rightarrow> string) \<Rightarrow> (nat \<Rightarrow> string) \<Rightarrow> string
     \<Rightarrow> (string \<Rightarrow> bool) \<Rightarrow> world \<Rightarrow> world" where
  "scrapeAllReviews store isoDay stamps timestamp diskFails w =
     (case fetchLoop store [] 0 of
        Inl e \<Rightarrow> catchAll e w
      | Inr (allReviews, pageCount) \<Rightarrow> saveReviews isoDay stamps timestamp diskFails allReviews w)"

section \<open>App Store, worldwide: fetching a country\<close>

text \<open>
  The loop of \<^verbatim>\<open>scrapeCountryReviews(countryCode, maxPages = 20)\<close> of the worldwide
  App Store scraper with the \<^verbatim>\<open>catch\<close> around it, from a state of \<open>allReviews\<close>,
  \<open>pageCount\<close> and \<open>consecutiveEmptyPages\<close>. The function returns \<open>allReviews\<close>; the
  model returns the whole final state, so that the number of iterations can be read.
\<close>

record fetchState =
  allReviews :: "areview list"
  pageCount :: nat
  consecutiveEmptyPages :: nat

function scrapeCountryLoopApple ::
  "(nat \<Rightarrow> error + areview list option) \<Rightarrow> string \<Rightarrow> nat \<Rightarrow> fetchState \<Rightarrow> fetchState" where
  "scrapeCountryLoopApple store countryCode maxPages st =
     (case store (pageCount st + 1) of
        Inl e \<Rightarrow> st\<lparr>pageCount := pageCount st + 1\<rparr>
      | Inr reviews \<Rightarrow>
          if (case reviews of None \<Rightarrow> False | Some rs \<Rightarrow> length rs > 0)
          then (let st' = \<lparr>allReviews = allReviews st
                                @ map (\<lambda>r. r\<lparr>areview.country := JStr countryCode\<rparr>) (the reviews),
                            pageCount = pageCount st + 1,
                            consecutiveEmptyPages = 0\<rparr> in
                if length (the reviews) < 5 then st'
                else if pageCount st + 1 < maxPages
                then scrapeCountryLoopApple store countryCode maxPages st'
                else st')
          else (let st' = \<lparr>allReviews = allReviews st,
                            pageCount = pageCount st + 1,
                            consecutiveEmptyPages = consecutiveEmptyPages st + 1\<rparr> in
                if consecutiveEmptyPages st + 1 \<ge> 2 then st'
                else if pageCount st + 1 < maxPages
                then scrapeCountryLoopApple store countryCode maxPages st'
                else st'))"
  by pat_completeness auto
termination
  by (relation "measure (\<lambda>(store, countryCode, maxPages, st). maxPages - pageCount st)") auto

declare scrapeCountryLoopApple.simps [simp del]

definition scrapeCountryReviewsApple ::
  "(nat \<Rightarrow> error + areview list option) \<Rightarrow> string \<Rightarrow> nat \<Rightarrow> areview list" where
  "scrapeCountryReviewsApple store countryCode maxPages =
     allReviews (scrapeCountryLoopApple store countryCode maxPages
       \<lparr>allReviews = [], pageCount = 0, consecutiveEmptyPages = 0\<rparr>)"


text \<open>
  What a page of a store holds, for stating properties of the fetch loops: the reviews of a
  successful page (none when the call fails or does not return an array), their number,
  whether the call for the page fails, and whether the page is a successful page without
  reviews.
\<close>

definition pageOf :: "(nat \<Rightarrow> error + areview list option) \<Rightarrow> nat \<Rightarrow> areview list" where
  "pageOf store page = (case store page of Inr (Some rs) \<Rightarrow> rs | _ \<Rightarrow> [])"

definition pageSize :: "(nat \<Rightarrow> error + areview list option) \<Rightarrow> nat \<Rightarrow> nat" where
  "pageSize store page = length (pageOf store page)"

definition failedPage :: "(nat \<Rightarrow> error + areview list option) \<Rightarrow> nat \<Rightarrow> bool" where
  "failedPage store page = (case store page of Inl e \<Rightarrow> True | Inr v \<Rightarrow> False)"

definition emptyPage :: "(nat \<Rightarrow> error + areview list option) \<Rightarrow> nat \<Rightarrow> bool" where
  "emptyPage store page =
     (case store page of Inl e \<Rightarrow> False | Inr None \<Rightarrow> True | Inr (Some rs) \<Rightarrow> rs = [])"

section \<open>Zendesk: tickets to reviews\<close>

text \<open>
  The fields of a ticket that the conversion reads, and a satisfaction rating as the
  ratings endpoint lists it.
\<close>

record ticket =
  id' :: jsval
  created_at :: jsval
  subject :: jsval
  description :: jsval
  tags :: jsval
  status :: jsval
  priority :: jsval
  requester_id :: jsval

record satisfactionRating =
  ticket_id :: jsval
  score :: jsval

text \<open>
  \<^verbatim>\<open>ticketToRating\<close> is called on \<^verbatim>\<open>{...ticket, satisfaction_rating: satisfaction}\<close>:
  the ticket and the joined rating, \<open>None\<close> when the join found nothing.
\<close>

definition ticketToRating :: "ticket \<Rightarrow> satisfactionRating option \<Rightarrow> jsval" where
  "ticketToRating t satisfaction_rating =
     (let fromSignal =
        (case satisfaction_rating of
           None \<Rightarrow> None
         | Some s \<Rightarrow>
             if truthy (satisfactionRating.score s)
             then (if satisfactionRating.score s = JStr ''offered'' then Some JNull
                   else if satisfactionRating.score s = JStr ''unoffered'' then Some JNull
                   else if satisfactionRating.score s = JStr ''received'' then Some JNull
                   else if satisfactionRating.score s = JStr ''good'' then Some (JNum 5)
                   else if satisfactionRating.score s = JStr ''bad'' then Some (JNum 1)
                   else None)
             else None)
      in case fromSignal of
           Some v \<Rightarrow> v
         | None \<Rightarrow>
             (let rating0 = (3::int);
                  rating1 =
                    (if ticket.status t = JStr ''solved'' \<or> ticket.status t = JStr ''closed''
                     then rating0 + 1
                     else if ticket.status t = JStr ''open'' \<or> ticket.status t = JStr ''pending''
                     then rating0 - 1
                     else rating0);
                  rating2 =
                    (if ticket.priority t = JStr ''urgent'' \<or> ticket.priority t = JStr ''high''
                     then rating1 - 1
                     else if ticket.priority t = JStr ''low''
                     then rating1 + 1
                     else rating1)
              in JNum (max 1 (min 5 rating2))))"

text \<open>\<^verbatim>\<open>v.length\<close> of a value: a number for a string and for an array, \<^verbatim>\<open>undefined\<close> otherwise.\<close>

fun jsLength :: "jsval \<Rightarrow> nat option" where
  "jsLength (JStr s) = Some (length s)"
| "jsLength (JArr xs) = Some (length xs)"
| "jsLength v = None"

text \<open>\<^verbatim>\<open>v.join(', ')\<close>: only an array has the method.\<close>

fun joinTags :: "jsval \<Rightarrow> error + string" where
  "joinTags (JArr xs) = Inr (arrayJoin '', '' xs)"
| "joinTags v = Inl TypeError"

definition extractTicketText :: "ticket \<Rightarrow> error + string" where
  "extractTicketText t =
     (let text0 = [];
          text1 = (if truthy (subject t) then text0 @ toString (subject t) else text0);
          text2 =
            (if truthy (description t) \<and> \<not> strictEq (description t) (subject t)
             then text1 @ (if text1 \<noteq> [] then ''. '' @ toString (description t)
                           else toString (description t))
             else text1)
      in if truthy (ticket.tags t) \<and> (case jsLength (ticket.tags t) of None \<Rightarrow> False | Some n \<Rightarrow> n > 0)
         then (case joinTags (ticket.tags t) of
                 Inl e \<Rightarrow> Inl e
               | Inr joined \<Rightarrow>
                   Inr (let text3 = text2 @ '' [Tags: '' @ joined @ '']''
                        in if text3 \<noteq> [] then text3 else ''No description available''))
         else Inr (if text2 \<noteq> [] then text2 else ''No description available''))"





text \<open>
  The rating of a converted ticket: \<^verbatim>\<open>ticketToRating\<close>, then the override by the joined
  satisfaction rating.
\<close>

definition determineRating :: "ticket \<Rightarrow> satisfactionRating option \<Rightarrow> jsval" where
  "determineRating t satisfaction =
     (let rating = ticketToRating t satisfaction
      in case satisfaction of
           None \<Rightarrow> rating
         | Some s \<Rightarrow>
             if satisfactionRating.score s = JStr ''good'' then JNum 5
             else if satisfactionRating.score s = JStr ''bad'' then JNum 1
             else rating)"

record zreview =
  id' :: string
  author :: string
  rating :: jsval
  review :: string
  title :: jsval
  date :: string
  helpful :: int
  platform :: string
  ticket_id :: jsval
  status :: jsval
  priority :: jsval
  satisfaction_score :: jsval
  tags :: jsval

text \<open>
  The callback of \<^verbatim>\<open>tickets.map\<close> in \<^verbatim>\<open>convertTicketsToReviews\<close>. \<open>rnd\<close> is the random
  suffix of the identifier. The date is computed first, the text when the object is built.
\<close>

definition convertTicket ::
  "(string \<Rightarrow> int option) \<Rightarrow> (int \<Rightarrow> string) \<Rightarrow> (string \<rightharpoonup> satisfactionRating) \<Rightarrow> string
     \<Rightarrow> ticket \<Rightarrow> error + zreview" where
  "convertTicket dateParse isoDay ratingsMap rnd t =
     (let satisfaction = ratingsMap (toString (ticket.id' t)) in
      case (if truthy (created_at t)
            then toISODay isoDay (newDate dateParse (created_at t))
            else Inr []) of
        Inl e \<Rightarrow> Inl e
      | Inr dateCol \<Rightarrow>
          (case extractTicketText t of
             Inl e \<Rightarrow> Inl e
           | Inr body \<Rightarrow>
               Inr \<lparr> id' = ''zendesk_'' @ toString (ticket.id' t) @ ''_'' @ rnd,
                     author = (if truthy (requester_id t)
                               then ''User '' @ toString (requester_id t)
                               else ''Anonymous''),
                     rating = determineRating t satisfaction,
                     review = body,
                     title = jsOr (subject t) (JStr []),
                     date = dateCol,
                     helpful = 0,
                     platform = ''zendesk'',
                     ticket_id = ticket.id' t,
                     status = ticket.status t,
                     priority = ticket.priority t,
                     satisfaction_score =
                       (case satisfaction of None \<Rightarrow> JNull | Some s \<Rightarrow> satisfactionRating.score s),
                     tags = jsOr (ticket.tags t) (JArr []) \<rparr>))"


text \<open>A rating of the canonical schema: \<^verbatim>\<open>null\<close>, or an integer from 1 to 5.\<close>

fun canonicalRating :: "jsval \<Rightarrow> bool" where
  "canonicalRating JNull = True"
| "canonicalRating (JNum n) = (1 \<le> n \<and> n \<le> 5)"
| "canonicalRating v = False"




section \<open>Concrete inputs\<close>

text \<open>
  Two Google Play reviews with different authors and different texts whose keys coincide.
\<close>

definition annLee :: greview where
  "annLee = \<lparr> greview.userName = JStr ''Ann_Lee'', text = JStr ''ok'',
               date = JStr ''2024-01-15'', score = JNum 4, helpfulCount = JNum 0,
               replyDate = JUndefined, replyText = JUndefined, country = JStr ''us'' \<rparr>"

definition ann :: greview where
  "ann = \<lparr> greview.userName = JStr ''Ann'', text = JStr ''Lee_ok'',
            date = JStr ''2024-01-15'', score = JNum 4, helpfulCount = JNum 0,
            replyDate = JUndefined, replyText = JUndefined, country = JStr ''us'' \<rparr>"

text \<open>Stand-ins for the library functions that are parameters of the model.\<close>

definition noParse :: "string \<Rightarrow> int option" where
  "noParse s = None"

definition epochDay :: "int \<Rightarrow> string" where
  "epochDay t = ''1970-01-01''"

definition fixedStamp :: "nat \<Rightarrow> string" where
  "fixedStamp i = ''abc''"

text \<open>Tickets, satisfaction ratings and a converted ticket.\<close>

definition solvedLowTicket :: ticket where
  "solvedLowTicket = \<lparr> ticket.id' = JNum 101, created_at = JUndefined, subject = JStr ''Strap size'',
      description = JStr ''Which strap fits?'', tags = JArr [JStr ''hardware'', JStr ''strap''],
      status = JStr ''solved'', priority = JStr ''low'', requester_id = JNum 7 \<rparr>"

definition solvedLowReview :: zreview where
  "solvedLowReview = \<lparr> zreview.id' = ''zendesk_101_abc'', author = ''User 7'', rating = JNum 5,
      review = ''Strap size. Which strap fits? [Tags: hardware, strap]'',
      title = JStr ''Strap size'', date = [], helpful = 0, platform = ''zendesk'',
      ticket_id = JNum 101, status = JStr ''solved'', priority = JStr ''low'',
      satisfaction_score = JNull, tags = JArr [JStr ''hardware'', JStr ''strap''] \<rparr>"



definition goodRating :: satisfactionRating where
  "goodRating = \<lparr> satisfactionRating.ticket_id = JNum 101, score = JStr ''good'' \<rparr>"

definition badRating :: satisfactionRating where
  "badRating = \<lparr> satisfactionRating.ticket_id = JNum 101, score = JStr ''bad'' \<rparr>"

text \<open>App Store reviews with a score outside and inside the range from 1 to 5.\<close>

definition sixStars :: areview where
  "sixStars = \<lparr> areview.userName = JStr ''Kim'', score = JNum 6, title = JStr ''Calm'',
      text = JStr ''Helps me focus'', version = JStr ''2.1'', helpfulCount = JNum 0,
      updated = Plain (JStr ''2024-03-02''), date = Plain JUndefined, country = JUndefined \<rparr>"

definition fourStars :: areview where
  "fourStars = \<lparr> areview.userName = JStr ''Kim'', score = JNum 4, title = JStr ''Calm'',
      text = JStr ''Helps me focus'', version = JStr ''2.1'', helpfulCount = JNum 0,
      updated = Plain (JStr ''2024-03-02''), date = Plain JUndefined, country = JUndefined \<rparr>"

definition fourStarsEntry :: acanonical where
  "fourStarsEntry = \<lparr> acanonical.id' = ''app_store_abc'', author = JStr ''Kim'', rating = JNum 4,
      review = JStr ''Helps me focus'', title = JStr ''Calm'', date = ''2024-03-02'',
      helpful = JNum 0, version = JStr ''2.1'', platform = ''app_store'' \<rparr>"





text \<open>A disk on which the CSV file cannot be written, a store with one page, an empty world.\<close>

definition runStamp :: string where
  "runStamp = ''2025-07-27T10-00-00''"

definition csvDiskFull :: "string \<Rightarrow> bool" where
  "csvDiskFull name = (name = csvFilename runStamp)"

definition diskFine :: "string \<Rightarrow> bool" where
  "diskFine name = False"

definition onePageStore :: "nat \<Rightarrow> error + areview list option" where
  "onePageStore page = (if page = 1 then Inr (Some [fourStars]) else Inr (Some []))"

definition emptyWorld :: world where
  "emptyWorld = \<lparr> files = Map.empty, trace = [] \<rparr>"


definition jsonDiskFull :: "string \<Rightarrow> bool" where
  "jsonDiskFull name = (name = jsonFilename runStamp)"

definition fourStarsCsv :: string where
  "fourStarsCsv =
     ''Date,User Name,Score,Title,Review Text,Version,Helpful Count'' @ [CHR 0x0A]
       @ joinLines '',''
           [quoted ''2024-03-02'', quoted ''Kim'', quoted ''4'', quoted ''Calm'',
            quoted ''Helps me focus'', quoted ''2.1'', quoted []]"

text \<open>
  Stores for the App Store loops: one that always returns five reviews, one that always
  returns an empty page, and one with a short first page, a second page, an empty third page
  and more reviews behind it.
\<close>

definition fullStore :: "nat \<Rightarrow> error + areview list option" where
  "fullStore page = Inr (Some [fourStars, fourStars, fourStars, fourStars, fourStars])"

definition emptyStore :: "nat \<Rightarrow> error + areview list option" where
  "emptyStore page = Inr (Some [])"

definition gapStore :: "nat \<Rightarrow> error + areview list option" where
  "gapStore page =
     (if page = 1 then Inr (Some [fourStars])
      else if page = 2 then Inr (Some [fourStars, sixStars])
      else if page = 3 then Inr (Some [])
      else Inr (Some [fourStars]))"

definition initialState :: fetchState where
  "initialState = \<lparr>allReviews = [], pageCount = 0, consecutiveEmptyPages = 0\<rparr>"

text \<open>
  A later Google Play review, and a parser that knows the two dates of the reviews above.
\<close>

definition marchReview :: greview where
  "marchReview = \<lparr> greview.userName = JStr ''Bo'', text = JStr ''Works'',
                    date = JStr ''2024-03-02'', score = JNum 5, helpfulCount = JNum 2,
                    replyDate = JUndefined, replyText = JUndefined, country = JStr ''gb'' \<rparr>"

definition dayParse :: "string \<Rightarrow> int option" where
  "dayParse s =
     (if s = ''2024-01-15'' then Some 1705276800000
      else if s = ''2024-03-02'' then Some 1709337600000
      else None)"

definition worldCsv :: string where
  "worldCsv =
     ''Date,Country,User Name,Score,Review Text,Helpful Count,Reply Date,Reply Text'' @ [CHR 0x0A]
       @ joinLines '',''
           [quoted ''2024-03-02'', quoted ''gb'', quoted ''Bo'', quoted ''5'', quoted ''Works'',
            quoted ''2'', quoted [], quoted []]
       @ [CHR 0x0A]
       @ joinLines '',''
           [quoted ''2024-01-15'', quoted ''us'', quoted ''Ann_Lee'', quoted ''4'', quoted ''ok'',
            quoted [], quoted [], quoted []]"

definition worldEntries :: "gcanonical list" where
  "worldEntries =
     [\<lparr> gcanonical.id' = ''google_play_abc'', author = JStr ''Bo'', rating = JNum 5,
         review = JStr ''Works'', date = JStr ''2024-03-02'', helpful = JNum 2,
         reply_date = JStr [], reply_text = JStr [], platform = ''google_play'',
         country = JStr ''gb'' \<rparr>,
      \<lparr> gcanonical.id' = ''google_play_abc'', author = JStr ''Ann_Lee'', rating = JNum 4,
         review = JStr ''ok'', date = JStr ''2024-01-15'', helpful = JNum 0,
         reply_date = JStr [], reply_text = JStr [], platform = ''google_play'',
         country = JStr ''us'' \<rparr>]"

text \<open>
  A Google Play review with the author, text and date of \<open>annLee\<close> but another rating,
  region and helpful count; a review without a date.
\<close>

definition annLeeGb :: greview where
  "annLeeGb = \<lparr> greview.userName = JStr ''Ann_Lee'', text = JStr ''ok'',
                 date = JStr ''2024-01-15'', score = JNum 5, helpfulCount = JNum 3,
                 replyDate = JUndefined, replyText = JUndefined, country = JStr ''gb'' \<rparr>"

definition undatedReview :: greview where
  "undatedReview = \<lparr> greview.userName = JStr ''Cy'', text = JStr ''Fine'',
                      date = JUndefined, score = JNum 3, helpfulCount = JNum 0,
                      replyDate = JUndefined, replyText = JUndefined, country = JStr ''de'' \<rparr>"




section \<open>Deduplication\<close>

lemma removeDuplicatesLoop_unique:
  "removeDuplicatesLoop seen unique reviews = unique @ removeDuplicatesLoop seen [] reviews"
proof (induction reviews arbitrary: seen unique)
  case Nil
  show ?case by simp
next
  case (Cons r rs)
  show ?case
    using Cons.IH [of "insert (reviewKey r) seen" "unique @ [r]"]
      Cons.IH [of "insert (reviewKey r) seen" "[r]"] Cons.IH [of seen unique]
    by (simp add: Let_def)
qed

lemma removeDuplicatesLoop_Cons:
  "removeDuplicatesLoop seen [] (r # rs) =
     (if reviewKey r \<in> seen then removeDuplicatesLoop seen [] rs
      else r # removeDuplicatesLoop (insert (reviewKey r) seen) [] rs)"
  using removeDuplicatesLoop_unique [of "insert (reviewKey r) seen" "[r]" rs]
  by (simp add: Let_def)

lemma removeDuplicatesLoop_keys:
  "reviewKey ` set (removeDuplicatesLoop seen [] rs) \<inter> seen = {}
   \<and> distinct (map reviewKey (removeDuplicatesLoop seen [] rs))"
proof (induction rs arbitrary: seen)
  case Nil
  show ?case by simp
next
  case (Cons r rs)
  show ?case
    using Cons.IH [of seen] Cons.IH [of "insert (reviewKey r) seen"]
    by (auto simp: removeDuplicatesLoop_Cons simp del: removeDuplicatesLoop.simps(2))
qed

lemma removeDuplicatesLoop_fixed:
  "distinct (map reviewKey rs) \<Longrightarrow> reviewKey ` set rs \<inter> seen = {}
   \<Longrightarrow> removeDuplicatesLoop seen [] rs = rs"
proof (induction rs arbitrary: seen)
  case Nil
  show ?case by simp
next
  case (Cons r rs)
  from Cons.prems have "reviewKey ` set rs \<inter> insert (reviewKey r) seen = {}" by auto
  with Cons.prems Cons.IH [of "insert (reviewKey r) seen"] show ?case
    by (auto simp: removeDuplicatesLoop_Cons simp del: removeDuplicatesLoop.simps(2))
qed

lemma removeDuplicatesLoop_subseq:
  "subseq (removeDuplicatesLoop seen [] rs) rs"
  by (induction rs arbitrary: seen)
     (auto simp: removeDuplicatesLoop_Cons simp del: removeDuplicatesLoop.simps(2))

lemma removeDuplicatesLoop_append:
  "removeDuplicatesLoop seen [] (xs @ ys) =
     removeDuplicatesLoop seen [] xs @ removeDuplicatesLoop (seen \<union> reviewKey ` set xs) [] ys"
proof (induction xs arbitrary: seen)
  case Nil
  show ?case by simp
next
  case (Cons r rs)
  have "insert (reviewKey r) seen \<union> reviewKey ` set rs = seen \<union> reviewKey ` set (r # rs)"
    by auto
  moreover have "reviewKey r \<in> seen \<Longrightarrow>
      seen \<union> reviewKey ` set rs = seen \<union> reviewKey ` set (r # rs)"
    by auto
  ultimately show ?case
    using Cons.IH [of seen] Cons.IH [of "insert (reviewKey r) seen"]
    by (simp add: removeDuplicatesLoop_Cons
          del: set_simps image_insert removeDuplicatesLoop.simps(2))
qed

text \<open>
  What the loop does with the last record of its input: it is dropped exactly when an
  earlier record has the same key string.
\<close>

lemma removeDuplicates_snoc:
  "removeDuplicates (rs @ [r]) =
     (if reviewKey r \<in> reviewKey ` set rs then removeDuplicates rs
      else removeDuplicates rs @ [r])"
  by (simp add: removeDuplicates_def removeDuplicatesLoop_append)

text \<open>Records with the same (author, body text, date) triple have the same key.\<close>

lemma fingerprint_reviewKey:
  "fingerprint a = fingerprint b \<Longrightarrow> reviewKey a = reviewKey b"
  by (simp add: fingerprint_def reviewKey_def)

text \<open>
  C1. The claim: a record is removed iff an earlier record has the identical (author, body
  text, date) triple. At the input \<open>[annLee, ann]\<close> the second record is removed although
  its author and its body text differ from those of the first: both keys are the string
  \<^verbatim>\<open>Ann_Lee_ok_2024-01-15\<close>.
\<close>

theorem removeDuplicates_key_collision:
  "removeDuplicates [annLee, ann] = [annLee]
   \<and> fingerprint ann \<noteq> fingerprint annLee
   \<and> reviewKey ann = reviewKey annLee"
  by (simp add: removeDuplicates_def reviewKey_def fingerprint_def annLee_def ann_def)

text \<open>
  The records kept are those at the positions where a key occurs for the first time, in the
  order of these positions.
\<close>

lemma removeDuplicates_first_occurrences:
  "removeDuplicates X =
     map (nth X) (filter (\<lambda>i. reviewKey (X ! i) \<notin> reviewKey ` set (take i X)) [0 ..< length X])"
proof (induction X rule: rev_induct)
  case Nil
  show ?case by (simp add: removeDuplicates_def)
next
  case (snoc r X)
  have f: "filter (\<lambda>i. reviewKey ((X @ [r]) ! i) \<notin> reviewKey ` set (take i (X @ [r]))) [0 ..< length X]
      = filter (\<lambda>i. reviewKey (X ! i) \<notin> reviewKey ` set (take i X)) [0 ..< length X]"
    by (rule filter_cong) (auto simp: nth_append)
  have m: "map (nth (X @ [r])) (filter (\<lambda>i. reviewKey (X ! i) \<notin> reviewKey ` set (take i X)) [0 ..< length X])
      = map (nth X) (filter (\<lambda>i. reviewKey (X ! i) \<notin> reviewKey ` set (take i X)) [0 ..< length X])"
    by (rule map_cong) (auto simp: nth_append)
  show ?case
    using snoc.IH f m by (simp add: removeDuplicates_snoc)
qed

lemma key_annLeeGb:
  "reviewKey annLeeGb = reviewKey annLee" "reviewKey marchReview \<noteq> reviewKey annLee"
  by (simp_all add: reviewKey_def annLeeGb_def annLee_def marchReview_def)

text \<open>
  C5. Deduplication is idempotent, and its result is a subsequence of its input that keeps
  the first occurrences in their relative order: the result consists of the records at the
  positions where a key occurs for the first time, in the order of these positions; a record
  appended to the input is appended to the result exactly when its key is new.
\<close>

theorem removeDuplicates_idempotent_subseq:
  "removeDuplicates (removeDuplicates X) = removeDuplicates X
   \<and> subseq (removeDuplicates X) X
   \<and> removeDuplicates X =
       map (nth X)
         (filter (\<lambda>i. reviewKey (X ! i) \<notin> reviewKey ` set (take i X)) [0 ..< length X])
   \<and> removeDuplicates (X @ [r]) =
       (if reviewKey r \<in> reviewKey ` set X then removeDuplicates X else removeDuplicates X @ [r])"
  using removeDuplicatesLoop_keys [of "{}" X] removeDuplicatesLoop_subseq [of "{}" X]
    removeDuplicates_first_occurrences [of X] removeDuplicates_snoc [of X r]
  by (simp add: removeDuplicates_def removeDuplicatesLoop_fixed)

theorem removeDuplicates_idempotent_subseq_witness:
  "removeDuplicates [annLee, marchReview, annLeeGb] = [annLee, marchReview]
   \<and> removeDuplicates [annLee, marchReview] = [annLee, marchReview]
   \<and> subseq [annLee, marchReview] [annLee, marchReview, annLeeGb]"
proof -
  have a: "removeDuplicates [annLee, marchReview] = [annLee, marchReview]"
    by (simp add: removeDuplicates_def key_annLeeGb)
  have b: "removeDuplicates [annLee, marchReview, annLeeGb] = [annLee, marchReview]"
    using a key_annLeeGb
      removeDuplicates_idempotent_subseq [where X = "[annLee, marchReview]" and r = annLeeGb]
    by simp
  show ?thesis
    using a b removeDuplicates_idempotent_subseq [where X = "[annLee, marchReview, annLeeGb]"]
    by simp
qed

section \<open>Tickets: rating and body text\<close>

lemma showInt_101: "showInt 101 = ''101''"
  by (simp add: showInt_def showNat.simps digitChar_def)

lemma showInt_7: "showInt 7 = ''7''"
  by (simp add: showInt_def showNat.simps digitChar_def)

lemma ticketToRating_None:
  "ticketToRating t None =
     JNum (max 1 (min 5 (3
       + of_bool (ticket.status t = JStr ''solved'' \<or> ticket.status t = JStr ''closed'')
       - of_bool (ticket.status t = JStr ''open'' \<or> ticket.status t = JStr ''pending'')
       - of_bool (ticket.priority t = JStr ''urgent'' \<or> ticket.priority t = JStr ''high'')
       + of_bool (ticket.priority t = JStr ''low''))))"
  by (simp add: ticketToRating_def Let_def)

lemma convertTicket_rating:
  "convertTicket dateParse isoDay ratingsMap rnd t = Inr r \<Longrightarrow>
     zreview.rating r = determineRating t (ratingsMap (toString (ticket.id' t)))"
  by (auto simp: convertTicket_def Let_def split: sum.splits if_splits)

lemma solvedLowTicket_text:
  "extractTicketText solvedLowTicket = Inr ''Strap size. Which strap fits? [Tags: hardware, strap]''"
  by (simp add: solvedLowTicket_def extractTicketText_def)

lemma solvedLowTicket_rating: "determineRating solvedLowTicket None = JNum 5"
  by (simp add: solvedLowTicket_def determineRating_def ticketToRating_def)

lemma solvedLowTicket_converted:
  "convertTicket noParse epochDay Map.empty ''abc'' solvedLowTicket = Inr solvedLowReview"
  apply (simp add: convertTicket_def solvedLowTicket_text solvedLowTicket_rating jsOr_def)
  apply (simp add: solvedLowTicket_def solvedLowReview_def showInt_101 showInt_7)
  done

text \<open>
  C2. Without a joined satisfaction rating the rating of a ticket is 3, plus 1 for the status
  solved or closed, minus 1 for open or pending, minus 1 for the priority urgent or high,
  plus 1 for low, clamped to the range from 1 to 5. A joined rating with the score good
  gives 5, with the score bad gives 1. A solved ticket of low priority without a joined
  rating gets 5. The rating of the converted record is this rating, for the satisfaction
  rating found under the ticket's identifier.
\<close>

theorem ticket_rating_derivation:
  "determineRating t None =
     JNum (max 1 (min 5 (3
       + of_bool (ticket.status t = JStr ''solved'' \<or> ticket.status t = JStr ''closed'')
       - of_bool (ticket.status t = JStr ''open'' \<or> ticket.status t = JStr ''pending'')
       - of_bool (ticket.priority t = JStr ''urgent'' \<or> ticket.priority t = JStr ''high'')
       + of_bool (ticket.priority t = JStr ''low''))))
   \<and> (satisfactionRating.score s = JStr ''good'' \<longrightarrow> determineRating t (Some s) = JNum 5)
   \<and> (satisfactionRating.score s = JStr ''bad'' \<longrightarrow> determineRating t (Some s) = JNum 1)
   \<and> (ticket.status t = JStr ''solved'' \<and> ticket.priority t = JStr ''low''
        \<longrightarrow> determineRating t None = JNum 5)
   \<and> (convertTicket dateParse isoDay ratingsMap rnd t = Inr r
        \<longrightarrow> zreview.rating r = determineRating t (ratingsMap (toString (ticket.id' t))))"
proof -
  have a: "determineRating t None = ticketToRating t None"
    by (simp add: determineRating_def)
  have b: "satisfactionRating.score s = JStr ''good'' \<Longrightarrow> determineRating t (Some s) = JNum 5"
    by (simp add: determineRating_def)
  have c: "satisfactionRating.score s = JStr ''bad'' \<Longrightarrow> determineRating t (Some s) = JNum 1"
    by (simp add: determineRating_def)
  have d: "ticket.status t = JStr ''solved'' \<and> ticket.priority t = JStr ''low''
        \<Longrightarrow> determineRating t None = JNum 5"
    by (simp add: a ticketToRating_None)
  show ?thesis
    using a b c d convertTicket_rating [of dateParse isoDay ratingsMap rnd t r]
    by (simp add: ticketToRating_None)
qed

theorem ticket_rating_derivation_witness:
  "satisfactionRating.score goodRating = JStr ''good''
   \<and> determineRating solvedLowTicket (Some goodRating) = JNum 5
   \<and> satisfactionRating.score badRating = JStr ''bad''
   \<and> determineRating solvedLowTicket (Some badRating) = JNum 1
   \<and> ticket.status solvedLowTicket = JStr ''solved''
   \<and> ticket.priority solvedLowTicket = JStr ''low''
   \<and> determineRating solvedLowTicket None = JNum 5
   \<and> convertTicket noParse epochDay Map.empty ''abc'' solvedLowTicket = Inr solvedLowReview
   \<and> zreview.rating solvedLowReview = JNum 5"
proof -
  have g: "satisfactionRating.score goodRating = JStr ''good''"
    by (simp add: goodRating_def)
  have b: "satisfactionRating.score badRating = JStr ''bad''"
    by (simp add: badRating_def)
  have sp: "ticket.status solvedLowTicket = JStr ''solved''"
    "ticket.priority solvedLowTicket = JStr ''low''"
    by (simp_all add: solvedLowTicket_def)
  show ?thesis
    using solvedLowTicket_converted g b sp
      ticket_rating_derivation [where t = solvedLowTicket and s = goodRating and dateParse = noParse
        and isoDay = epochDay and ratingsMap = Map.empty and rnd = "''abc''" and r = solvedLowReview]
      ticket_rating_derivation [where t = solvedLowTicket and s = badRating and dateParse = noParse
        and isoDay = epochDay and ratingsMap = Map.empty and rnd = "''abc''" and r = solvedLowReview]
    by simp
qed







section \<open>Ratings of the canonical records\<close>

lemma jsonEntry_rating:
  "jsonEntry isoDay stamp r = Inr e \<Longrightarrow>
     acanonical.rating e = (if truthy (areview.score r) then areview.score r else JNull)"
  by (auto simp: jsonEntry_def jsOr_def split: sum.splits)

lemma canonicalRating_ticketToRating: "canonicalRating (ticketToRating t satisfaction)"
  by (auto simp: ticketToRating_def Let_def split: option.splits)

lemma canonicalRating_determineRating: "canonicalRating (determineRating t satisfaction)"
  using canonicalRating_ticketToRating [of t satisfaction]
  by (auto simp: determineRating_def Let_def split: option.splits)

text \<open>
  C4, as stated, fails: the App Store callback copies a score of 6 into the rating.
\<close>

theorem jsonEntry_rating_out_of_range:
  "map_sum id acanonical.rating (jsonEntry epochDay ''abc'' sixStars) = Inr (JNum 6)
   \<and> \<not> canonicalRating (JNum 6)"
  by (simp add: jsonEntry_def formatDate_def sixStars_def jsOr_def)

text \<open>
  C4, amended. For App Store and Google Play records the rating is the raw score whenever
  the score is truthy, whatever its type and range, and \<^verbatim>\<open>null\<close> otherwise; so the rating
  is \<^verbatim>\<open>null\<close> or an integer from 1 to 5 whenever the raw score is falsy or such an integer.
  For records made from tickets the rating is always \<^verbatim>\<open>null\<close> or an integer from 1 to 5.
\<close>

theorem rating_copied_when_truthy:
  "(jsonEntry isoDay stamp r = Inr e
      \<longrightarrow> acanonical.rating e = (if truthy (areview.score r) then areview.score r else JNull))
   \<and> (jsonEntry isoDay stamp r = Inr e
        \<and> (\<not> truthy (areview.score r) \<or> canonicalRating (areview.score r))
      \<longrightarrow> canonicalRating (acanonical.rating e))
   \<and> gcanonical.rating (jsonEntryGlobal stamp g)
       = (if truthy (greview.score g) then greview.score g else JNull)
   \<and> canonicalRating (determineRating t satisfaction)"
  using jsonEntry_rating [of isoDay stamp r e] canonicalRating_determineRating [of t satisfaction]
  by (auto simp: jsonEntryGlobal_def jsOr_def)

lemma fourStars_entry: "jsonEntry epochDay ''abc'' fourStars = Inr fourStarsEntry"
  by (simp add: jsonEntry_def formatDate_def fourStars_def fourStarsEntry_def jsOr_def)

theorem rating_copied_when_truthy_witness:
  "jsonEntry epochDay ''abc'' fourStars = Inr fourStarsEntry
   \<and> canonicalRating (areview.score fourStars)
   \<and> acanonical.rating fourStarsEntry = JNum 4
   \<and> canonicalRating (acanonical.rating fourStarsEntry)"
  using fourStars_entry
    rating_copied_when_truthy [where isoDay = epochDay and stamp = "''abc''" and r = fourStars
      and e = fourStarsEntry]
  by (simp add: fourStars_def)

section \<open>Conversion of tickets\<close>











section \<open>Provider failures\<close>






section \<open>Writing the two representations\<close>

lemma onePageStore_fetch: "fetchLoop onePageStore [] 0 = Inr ([fourStars], 2)"
  by (simp add: fetchLoop.simps onePageStore_def)

lemma fourStars_csv: "csvText epochDay [fourStars] = Inr fourStarsCsv"
  by (simp add: fourStarsCsv_def csvText_def csvRow_def formatDate_def fourStars_def jsOr_def doubleQuotes_def
        showInt_def showNat.simps digitChar_def)

text \<open>
  C8, as stated, fails: when the write of the CSV file throws, the script prints the error
  and ends; the write of the JSON file is never attempted.
\<close>

theorem csv_failure_skips_json:
  "trace (scrapeAllReviews onePageStore epochDay fixedStamp runStamp csvDiskFull emptyWorld) =
     [WriteAttempt (csvFilename runStamp), ConsoleError (WriteError (csvFilename runStamp))]
   \<and> WriteAttempt (jsonFilename runStamp)
       \<notin> set (trace (scrapeAllReviews onePageStore epochDay fixedStamp runStamp csvDiskFull emptyWorld))"
  by (simp add: scrapeAllReviews_def onePageStore_fetch saveReviews_def fourStars_csv
        writeFileSync_def csvDiskFull_def catchAll_def emptyWorld_def csvFilename_def
        jsonFilename_def)

text \<open>
  C8, amended. The two writes follow each other inside one \<^verbatim>\<open>try\<close> block with one handler.
  If the write of the CSV file fails, the error is printed and the JSON file is not attempted.
  If the write of the CSV file succeeds, the JSON file is attempted; when that write fails the
  error is printed and the CSV file stays written, and when it succeeds both files are written.
\<close>

theorem writes_in_sequence_under_one_handler:
  "(csvText isoDay reviews = Inr csv \<and> diskFails (csvFilename timestamp) \<longrightarrow>
      saveReviews isoDay stamps timestamp diskFails reviews w =
        w\<lparr>trace := trace w @ [WriteAttempt (csvFilename timestamp),
                               ConsoleError (WriteError (csvFilename timestamp))]\<rparr>)
   \<and> (csvText isoDay reviews = Inr csv \<and> jsonData isoDay stamps reviews = Inr entries
        \<and> \<not> diskFails (csvFilename timestamp) \<and> diskFails (jsonFilename timestamp) \<longrightarrow>
      saveReviews isoDay stamps timestamp diskFails reviews w =
        w\<lparr>files := (files w)(csvFilename timestamp \<mapsto> CsvContent csv),
          trace := trace w @ [WriteAttempt (csvFilename timestamp),
                              WriteAttempt (jsonFilename timestamp),
                              ConsoleError (WriteError (jsonFilename timestamp))]\<rparr>)
   \<and> (csvText isoDay reviews = Inr csv \<and> jsonData isoDay stamps reviews = Inr entries
        \<and> \<not> diskFails (csvFilename timestamp) \<and> \<not> diskFails (jsonFilename timestamp) \<longrightarrow>
      saveReviews isoDay stamps timestamp diskFails reviews w =
        w\<lparr>files := (files w)(csvFilename timestamp \<mapsto> CsvContent csv,
                               jsonFilename timestamp \<mapsto> JsonContent entries),
          trace := trace w @ [WriteAttempt (csvFilename timestamp),
                              WriteAttempt (jsonFilename timestamp)]\<rparr>)"
  by (simp add: saveReviews_def writeFileSync_def catchAll_def)


lemma fourStars_json: "jsonData epochDay fixedStamp [fourStars] = Inr [fourStarsEntry]"
  by (simp add: jsonData_def enumerate_eq_zip fixedStamp_def fourStars_entry)

theorem writes_in_sequence_under_one_handler_witness:
  "saveReviews epochDay fixedStamp runStamp csvDiskFull [fourStars] emptyWorld =
     \<lparr>files = Map.empty,
      trace = [WriteAttempt (csvFilename runStamp),
               ConsoleError (WriteError (csvFilename runStamp))]\<rparr>
   \<and> saveReviews epochDay fixedStamp runStamp jsonDiskFull [fourStars] emptyWorld =
     \<lparr>files = [csvFilename runStamp \<mapsto> CsvContent fourStarsCsv],
      trace = [WriteAttempt (csvFilename runStamp), WriteAttempt (jsonFilename runStamp),
               ConsoleError (WriteError (jsonFilename runStamp))]\<rparr>
   \<and> saveReviews epochDay fixedStamp runStamp diskFine [fourStars] emptyWorld =
     \<lparr>files = [csvFilename runStamp \<mapsto> CsvContent fourStarsCsv,
               jsonFilename runStamp \<mapsto> JsonContent [fourStarsEntry]],
      trace = [WriteAttempt (csvFilename runStamp), WriteAttempt (jsonFilename runStamp)]\<rparr>"
proof -
  have d: "csvDiskFull (csvFilename runStamp)"
    "\<not> jsonDiskFull (csvFilename runStamp)" "jsonDiskFull (jsonFilename runStamp)"
    "\<not> diskFine (csvFilename runStamp)" "\<not> diskFine (jsonFilename runStamp)"
    by (simp_all add: csvDiskFull_def jsonDiskFull_def diskFine_def csvFilename_def jsonFilename_def)
  show ?thesis
    using d fourStars_csv fourStars_json
      writes_in_sequence_under_one_handler [where isoDay = epochDay and reviews = "[fourStars]"
        and csv = fourStarsCsv and diskFails = csvDiskFull and timestamp = runStamp
        and stamps = fixedStamp and w = emptyWorld]
      writes_in_sequence_under_one_handler [where isoDay = epochDay and reviews = "[fourStars]"
        and csv = fourStarsCsv and diskFails = jsonDiskFull and timestamp = runStamp
        and stamps = fixedStamp and w = emptyWorld and entries = "[fourStarsEntry]"]
      writes_in_sequence_under_one_handler [where isoDay = epochDay and reviews = "[fourStars]"
        and csv = fourStarsCsv and diskFails = diskFine and timestamp = runStamp
        and stamps = fixedStamp and w = emptyWorld and entries = "[fourStarsEntry]"]
    by (simp add: emptyWorld_def)
qed

section \<open>The App Store fetch loops\<close>

lemma loopApple_empty:
  "emptyPage store (pageCount st + 1) \<Longrightarrow>
     scrapeCountryLoopApple store countryCode maxPages st =
       (if 2 \<le> consecutiveEmptyPages st + 1 \<or> maxPages \<le> pageCount st + 1
        then \<lparr>allReviews = allReviews st, pageCount = pageCount st + 1,
               consecutiveEmptyPages = consecutiveEmptyPages st + 1\<rparr>
        else scrapeCountryLoopApple store countryCode maxPages
               \<lparr>allReviews = allReviews st, pageCount = pageCount st + 1,
                consecutiveEmptyPages = consecutiveEmptyPages st + 1\<rparr>)"
  by (subst scrapeCountryLoopApple.simps)
     (auto simp: emptyPage_def Let_def split: sum.splits option.splits)

lemma loopApple_nonempty:
  "0 < pageSize store (pageCount st + 1) \<Longrightarrow>
     scrapeCountryLoopApple store countryCode maxPages st =
       (if pageSize store (pageCount st + 1) < 5 \<or> maxPages \<le> pageCount st + 1
        then \<lparr>allReviews = allReviews st
                   @ map (\<lambda>r. r\<lparr>areview.country := JStr countryCode\<rparr>) (pageOf store (pageCount st + 1)),
               pageCount = pageCount st + 1, consecutiveEmptyPages = 0\<rparr>
        else scrapeCountryLoopApple store countryCode maxPages
               \<lparr>allReviews = allReviews st
                   @ map (\<lambda>r. r\<lparr>areview.country := JStr countryCode\<rparr>) (pageOf store (pageCount st + 1)),
                pageCount = pageCount st + 1, consecutiveEmptyPages = 0\<rparr>)"
  by (subst scrapeCountryLoopApple.simps)
     (auto simp: pageSize_def pageOf_def Let_def split: sum.splits option.splits)

lemma loopApple_failed:
  "store (pageCount st + 1) = Inl e \<Longrightarrow>
     scrapeCountryLoopApple store countryCode maxPages st = st\<lparr>pageCount := pageCount st + 1\<rparr>"
  by (subst scrapeCountryLoopApple.simps) simp

lemma page_disj:
  "(\<exists>e. store page = Inl e) \<or> emptyPage store page \<or> 0 < pageSize store page"
  by (auto simp: emptyPage_def pageSize_def pageOf_def split: sum.splits option.splits)

lemma loopApple_bound:
  "pageCount st < pageCount (scrapeCountryLoopApple store countryCode maxPages st)
   \<and> pageCount (scrapeCountryLoopApple store countryCode maxPages st)
       \<le> max maxPages (pageCount st + 1)"
proof (induction "maxPages - pageCount st" arbitrary: st rule: less_induct)
  case less
  consider (failed) e where "store (pageCount st + 1) = Inl e"
    | (empty) "emptyPage store (pageCount st + 1)"
    | (nonempty) "0 < pageSize store (pageCount st + 1)"
    using page_disj [of store "pageCount st + 1"] by auto
  then show ?case
  proof cases
    case failed
    then show ?thesis by (simp add: loopApple_failed)
  next
    case empty
    let ?st = "\<lparr>allReviews = allReviews st, pageCount = pageCount st + 1,
                consecutiveEmptyPages = consecutiveEmptyPages st + 1\<rparr>"
    show ?thesis
    proof (cases "2 \<le> consecutiveEmptyPages st + 1 \<or> maxPages \<le> pageCount st + 1")
      case True
      with empty show ?thesis by (simp add: loopApple_empty)
    next
      case False
      then have "maxPages - pageCount ?st < maxPages - pageCount st" by auto
      from less [OF this] False empty show ?thesis by (simp add: loopApple_empty)
    qed
  next
    case nonempty
    let ?st = "\<lparr>allReviews = allReviews st
                   @ map (\<lambda>r. r\<lparr>areview.country := JStr countryCode\<rparr>) (pageOf store (pageCount st + 1)),
                pageCount = pageCount st + 1, consecutiveEmptyPages = 0\<rparr>"
    show ?thesis
    proof (cases "pageSize store (pageCount st + 1) < 5 \<or> maxPages \<le> pageCount st + 1")
      case True
      with nonempty show ?thesis by (simp add: loopApple_nonempty)
    next
      case False
      then have "maxPages - pageCount ?st < maxPages - pageCount st" by auto
      from less [OF this] False nonempty show ?thesis by (simp add: loopApple_nonempty)
    qed
  qed
qed

lemma loopApple_full_pages:
  assumes full: "\<forall>page. 5 \<le> pageSize store page"
  shows "pageCount st < maxPages \<Longrightarrow>
     pageCount (scrapeCountryLoopApple store countryCode maxPages st) = maxPages"
proof (induction "maxPages - pageCount st" arbitrary: st rule: less_induct)
  case less
  let ?st = "\<lparr>allReviews = allReviews st
                 @ map (\<lambda>r. r\<lparr>areview.country := JStr countryCode\<rparr>) (pageOf store (pageCount st + 1)),
              pageCount = pageCount st + 1, consecutiveEmptyPages = 0\<rparr>"
  from full have s: "5 \<le> pageSize store (pageCount st + 1)" by blast
  then have p: "0 < pageSize store (pageCount st + 1)" by simp
  show ?case
  proof (cases "maxPages \<le> pageCount st + 1")
    case True
    with less.prems s p show ?thesis by (simp add: loopApple_nonempty)
  next
    case False
    then have "maxPages - pageCount ?st < maxPages - pageCount st" "pageCount ?st < maxPages"
      by simp_all
    from less.hyps [OF this] False s p show ?thesis by (simp add: loopApple_nonempty)
  qed
qed

lemma fetchLoop_nonempty:
  "0 < pageSize store (pc + 1) \<Longrightarrow>
     fetchLoop store collected pc =
       (if pc + 1 < 200
        then fetchLoop store (collected @ pageOf store (pc + 1)) (pc + 1)
        else Inr (collected @ pageOf store (pc + 1), pc + 1))"
  by (subst fetchLoop.simps)
     (auto simp: pageSize_def pageOf_def split: sum.splits option.splits)

lemma fetchLoop_empty:
  "emptyPage store (pc + 1) \<Longrightarrow>
     fetchLoop store collected pc = Inr (collected, pc + 1)"
  by (subst fetchLoop.simps)
     (auto simp: emptyPage_def split: sum.splits option.splits)

lemma fetchLoop_full_pages:
  assumes full: "\<forall>page. 0 < pageSize store page"
  shows "pc < 200 \<Longrightarrow> \<exists>collected'. fetchLoop store collected pc = Inr (collected', 200)"
proof (induction "200 - pc" arbitrary: pc collected rule: less_induct)
  case less
  from full have p: "0 < pageSize store (pc + 1)" by blast
  show ?case
  proof (cases "pc + 1 < 200")
    case True
    then have "200 - (pc + 1) < 200 - pc" by simp
    from less.hyps [OF this True, of "collected @ pageOf store (pc + 1)"] True p
    show ?thesis by (simp add: fetchLoop_nonempty)
  next
    case False
    with less.prems have "pc + 1 = 200" by simp
    with p show ?thesis by (simp add: fetchLoop_nonempty)
  qed
qed

lemma fetchLoop_first_empty:
  "pc < k \<Longrightarrow> k \<le> 200 \<Longrightarrow> emptyPage store k \<Longrightarrow>
   (\<forall>page. pc < page \<and> page < k \<longrightarrow> 0 < pageSize store page) \<Longrightarrow>
     fetchLoop store collected pc =
       Inr (collected @ concat (map (pageOf store) [pc + 1 ..< k]), k)"
proof (induction "k - pc" arbitrary: pc collected rule: less_induct)
  case less
  show ?case
  proof (cases "pc + 1 = k")
    case True
    with less.prems show ?thesis by (simp add: fetchLoop_empty)
  next
    case False
    with less.prems have lt: "pc + 1 < k" by simp
    with less.prems have p: "0 < pageSize store (pc + 1)" by simp
    have m: "k - (pc + 1) < k - pc" using lt by simp
    have r: "\<forall>page. pc + 1 < page \<and> page < k \<longrightarrow> 0 < pageSize store page"
      using less.prems by simp
    have u: "[pc + 1 ..< k] = (pc + 1) # [pc + 1 + 1 ..< k]"
      using lt by (simp add: upt_conv_Cons)
    from less.hyps [OF m lt less.prems(2,3) r, of "collected @ pageOf store (pc + 1)"]
      p lt less.prems(2) u
    show ?thesis by (simp add: fetchLoop_nonempty)
  qed
qed


lemma loopApple_exit:
  "consecutiveEmptyPages st \<le> 1 \<Longrightarrow>
   pageCount (scrapeCountryLoopApple store countryCode maxPages st) < maxPages \<Longrightarrow>
     failedPage store (pageCount (scrapeCountryLoopApple store countryCode maxPages st))
     \<or> (0 < pageSize store (pageCount (scrapeCountryLoopApple store countryCode maxPages st))
        \<and> pageSize store (pageCount (scrapeCountryLoopApple store countryCode maxPages st)) < 5)
     \<or> (consecutiveEmptyPages (scrapeCountryLoopApple store countryCode maxPages st) = 2
        \<and> emptyPage store (pageCount (scrapeCountryLoopApple store countryCode maxPages st)))"
proof (induction "maxPages - pageCount st" arbitrary: st rule: less_induct)
  case less
  consider (failed) e where "store (pageCount st + 1) = Inl e"
    | (empty) "emptyPage store (pageCount st + 1)"
    | (nonempty) "0 < pageSize store (pageCount st + 1)"
    using page_disj [of store "pageCount st + 1"] by auto
  then show ?case
  proof cases
    case failed
    then show ?thesis by (simp add: loopApple_failed failedPage_def)
  next
    case empty
    let ?st = "\<lparr>allReviews = allReviews st, pageCount = pageCount st + 1,
                consecutiveEmptyPages = consecutiveEmptyPages st + 1\<rparr>"
    show ?thesis
    proof (cases "2 \<le> consecutiveEmptyPages st + 1 \<or> maxPages \<le> pageCount st + 1")
      case True
      have e: "scrapeCountryLoopApple store countryCode maxPages st = ?st"
        using True empty by (simp add: loopApple_empty)
      from less.prems(2) have "\<not> maxPages \<le> pageCount st + 1" unfolding e by simp
      with True less.prems(1) have "consecutiveEmptyPages st + 1 = 2" by linarith
      with empty show ?thesis unfolding e by simp
    next
      case False
      then have m: "maxPages - pageCount ?st < maxPages - pageCount st"
        and c: "consecutiveEmptyPages ?st \<le> 1" by auto
      have e: "scrapeCountryLoopApple store countryCode maxPages st
          = scrapeCountryLoopApple store countryCode maxPages ?st"
        using False empty by (simp add: loopApple_empty)
      from less.hyps [OF m c] less.prems(2) show ?thesis unfolding e by simp
    qed
  next
    case nonempty
    let ?st = "\<lparr>allReviews = allReviews st
                   @ map (\<lambda>r. r\<lparr>areview.country := JStr countryCode\<rparr>) (pageOf store (pageCount st + 1)),
                pageCount = pageCount st + 1, consecutiveEmptyPages = 0\<rparr>"
    show ?thesis
    proof (cases "pageSize store (pageCount st + 1) < 5 \<or> maxPages \<le> pageCount st + 1")
      case True
      have e: "scrapeCountryLoopApple store countryCode maxPages st = ?st"
        using True nonempty by (simp add: loopApple_nonempty)
      from less.prems(2) have "\<not> maxPages \<le> pageCount st + 1" unfolding e by simp
      with True have "pageSize store (pageCount st + 1) < 5" by simp
      with nonempty show ?thesis unfolding e by simp
    next
      case False
      then have m: "maxPages - pageCount ?st < maxPages - pageCount st"
        and c: "consecutiveEmptyPages ?st \<le> 1" by auto
      have e: "scrapeCountryLoopApple store countryCode maxPages st
          = scrapeCountryLoopApple store countryCode maxPages ?st"
        using False nonempty by (simp add: loopApple_nonempty)
      from less.hyps [OF m c] less.prems(2) show ?thesis unfolding e by simp
    qed
  qed
qed

text \<open>
  C3, as stated, fails on the loop of the one-country App Store script. On a store whose
  first page has one review, whose second page has two, whose third page is empty and whose
  fourth page has reviews again, the loop fetches the second page after the short first one,
  and it stops at the third page: after one empty page, not after two.
\<close>

theorem fetchLoop_stops_at_first_empty_page:
  "fetchLoop gapStore [] 0 = Inr ([fourStars, fourStars, sixStars], 3)
   \<and> pageSize gapStore 1 = 1
   \<and> emptyPage gapStore 3 \<and> \<not> emptyPage gapStore 2 \<and> \<not> emptyPage gapStore 4"
  by (simp add: fetchLoop.simps gapStore_def pageSize_def pageOf_def emptyPage_def)

text \<open>
  C3, amended. Both App Store loops always end: the per-country loop of the worldwide script
  after at most \<open>max maxPages 1\<close> iterations, the loop of the one-country script after
  at most 200. The per-country loop of the worldwide script does what the claim says: on
  pages of at least 5 reviews for ever it runs exactly \<open>maxPages\<close> iterations
  (\<open>maxPages \<ge> 1\<close>); an empty page increments the counter of consecutive empty pages and
  ends the loop only when the counter reaches 2 (or the page limit is reached); a
  successful page of fewer than 5 reviews is kept and ends the pagination; and whenever the
  loop ends below the page limit, the last call failed, or the last page was short, or the
  counter is 2. The loop of the one-country script has neither a counter nor a minimum page
  size: on non-empty pages for ever it runs exactly 200 iterations, and otherwise it ends at
  the first empty page, with every page before it kept.
\<close>

theorem app_store_fetch_loops:
  "pageCount st < pageCount (scrapeCountryLoopApple store countryCode maxPages st)
   \<and> pageCount (scrapeCountryLoopApple store countryCode maxPages st)
       \<le> max maxPages (pageCount st + 1)
   \<and> ((\<forall>page. 5 \<le> pageSize store page) \<and> 1 \<le> maxPages \<longrightarrow>
        pageCount (scrapeCountryLoopApple store countryCode maxPages initialState) = maxPages)
   \<and> (emptyPage store (pageCount st + 1) \<longrightarrow>
        scrapeCountryLoopApple store countryCode maxPages st =
          (if 2 \<le> consecutiveEmptyPages st + 1 \<or> maxPages \<le> pageCount st + 1
           then \<lparr>allReviews = allReviews st, pageCount = pageCount st + 1,
                  consecutiveEmptyPages = consecutiveEmptyPages st + 1\<rparr>
           else scrapeCountryLoopApple store countryCode maxPages
                  \<lparr>allReviews = allReviews st, pageCount = pageCount st + 1,
                   consecutiveEmptyPages = consecutiveEmptyPages st + 1\<rparr>))
   \<and> (0 < pageSize store (pageCount st + 1) \<and> pageSize store (pageCount st + 1) < 5 \<longrightarrow>
        scrapeCountryLoopApple store countryCode maxPages st =
          \<lparr>allReviews = allReviews st
             @ map (\<lambda>r. r\<lparr>areview.country := JStr countryCode\<rparr>) (pageOf store (pageCount st + 1)),
           pageCount = pageCount st + 1, consecutiveEmptyPages = 0\<rparr>)
   \<and> (consecutiveEmptyPages st \<le> 1
        \<and> pageCount (scrapeCountryLoopApple store countryCode maxPages st) < maxPages \<longrightarrow>
        failedPage store (pageCount (scrapeCountryLoopApple store countryCode maxPages st))
        \<or> (0 < pageSize store (pageCount (scrapeCountryLoopApple store countryCode maxPages st))
           \<and> pageSize store (pageCount (scrapeCountryLoopApple store countryCode maxPages st)) < 5)
        \<or> (consecutiveEmptyPages (scrapeCountryLoopApple store countryCode maxPages st) = 2
           \<and> emptyPage store (pageCount (scrapeCountryLoopApple store countryCode maxPages st))))
   \<and> ((\<forall>page. 0 < pageSize store page) \<longrightarrow>
        (\<exists>collected. fetchLoop store [] 0 = Inr (collected, 200)))
   \<and> (1 \<le> k \<and> k \<le> 200 \<and> emptyPage store k
        \<and> (\<forall>page. 1 \<le> page \<and> page < k \<longrightarrow> 0 < pageSize store page) \<longrightarrow>
        fetchLoop store [] 0 = Inr (concat (map (pageOf store) [1 ..< k]), k))"
proof -
  have b: "(\<forall>page. 5 \<le> pageSize store page) \<and> 1 \<le> maxPages \<Longrightarrow>
        pageCount (scrapeCountryLoopApple store countryCode maxPages initialState) = maxPages"
    using loopApple_full_pages [of store initialState maxPages countryCode]
    by (simp add: initialState_def)
  have d: "0 < pageSize store (pageCount st + 1) \<and> pageSize store (pageCount st + 1) < 5 \<Longrightarrow>
        scrapeCountryLoopApple store countryCode maxPages st =
          \<lparr>allReviews = allReviews st
             @ map (\<lambda>r. r\<lparr>areview.country := JStr countryCode\<rparr>) (pageOf store (pageCount st + 1)),
           pageCount = pageCount st + 1, consecutiveEmptyPages = 0\<rparr>"
    by (simp add: loopApple_nonempty)
  have e: "consecutiveEmptyPages st \<le> 1
        \<and> pageCount (scrapeCountryLoopApple store countryCode maxPages st) < maxPages \<Longrightarrow>
        failedPage store (pageCount (scrapeCountryLoopApple store countryCode maxPages st))
        \<or> (0 < pageSize store (pageCount (scrapeCountryLoopApple store countryCode maxPages st))
           \<and> pageSize store (pageCount (scrapeCountryLoopApple store countryCode maxPages st)) < 5)
        \<or> (consecutiveEmptyPages (scrapeCountryLoopApple store countryCode maxPages st) = 2
           \<and> emptyPage store (pageCount (scrapeCountryLoopApple store countryCode maxPages st)))"
    using loopApple_exit [of st store countryCode maxPages] by simp
  have f: "(\<forall>page. 0 < pageSize store page) \<Longrightarrow>
        (\<exists>collected. fetchLoop store [] 0 = Inr (collected, 200))"
    using fetchLoop_full_pages [of store 0 "[]"] by simp
  have g: "1 \<le> k \<and> k \<le> 200 \<and> emptyPage store k
        \<and> (\<forall>page. 1 \<le> page \<and> page < k \<longrightarrow> 0 < pageSize store page) \<Longrightarrow>
        fetchLoop store [] 0 = Inr (concat (map (pageOf store) [1 ..< k]), k)"
    using fetchLoop_first_empty [of 0 k store "[]"] by simp
  show ?thesis
    using loopApple_bound [of st store countryCode maxPages]
      loopApple_empty [of store st countryCode maxPages] b d e f g
    by blast
qed


theorem app_store_fetch_loops_witness:
  "pageCount (scrapeCountryLoopApple fullStore ''us'' 3 initialState) = 3
   \<and> scrapeCountryLoopApple emptyStore ''us'' 20 initialState =
       \<lparr>allReviews = [], pageCount = 2, consecutiveEmptyPages = 2\<rparr>
   \<and> scrapeCountryLoopApple gapStore ''us'' 20 initialState =
       \<lparr>allReviews = [fourStars\<lparr>areview.country := JStr ''us''\<rparr>], pageCount = 1,
        consecutiveEmptyPages = 0\<rparr>
   \<and> (\<exists>collected. fetchLoop fullStore [] 0 = Inr (collected, 200))
   \<and> fetchLoop gapStore [] 0 = Inr ([fourStars, fourStars, sixStars], 3)"
proof -
  have full: "\<forall>page. 5 \<le> pageSize fullStore page" "\<forall>page. 0 < pageSize fullStore page"
    by (simp_all add: pageSize_def pageOf_def fullStore_def)
  have empty: "emptyPage emptyStore (pageCount initialState + 1)"
    "emptyPage emptyStore
       (pageCount \<lparr>allReviews = [], pageCount = 1, consecutiveEmptyPages = 1\<rparr> + 1)"
    by (simp_all add: emptyPage_def emptyStore_def)
  have gap: "pageSize gapStore (pageCount initialState + 1) = 1"
    "pageOf gapStore (pageCount initialState + 1) = [fourStars]"
    "emptyPage gapStore 3" "\<forall>page. 1 \<le> page \<and> page < 3 \<longrightarrow> 0 < pageSize gapStore page"
    "concat (map (pageOf gapStore) [1 ..< 3]) = [fourStars, fourStars, sixStars]"
    by (simp_all add: pageSize_def pageOf_def gapStore_def emptyPage_def initialState_def
          upt_conv_Cons)
  have a: "scrapeCountryLoopApple emptyStore ''us'' 20 initialState =
      scrapeCountryLoopApple emptyStore ''us'' 20
        \<lparr>allReviews = [], pageCount = 1, consecutiveEmptyPages = 1\<rparr>"
    using empty(1)
      app_store_fetch_loops [where store = emptyStore and st = initialState and maxPages = 20
        and countryCode = "''us''"]
    by (simp add: initialState_def)
  have b: "scrapeCountryLoopApple emptyStore ''us'' 20
        \<lparr>allReviews = [], pageCount = 1, consecutiveEmptyPages = 1\<rparr> =
      \<lparr>allReviews = [], pageCount = 2, consecutiveEmptyPages = 2\<rparr>"
    using empty(2)
      app_store_fetch_loops [where store = emptyStore
        and st = "\<lparr>allReviews = [], pageCount = 1, consecutiveEmptyPages = 1\<rparr>"
        and maxPages = 20 and countryCode = "''us''"]
    by simp
  have c: "scrapeCountryLoopApple gapStore ''us'' 20 initialState =
       \<lparr>allReviews = [fourStars\<lparr>areview.country := JStr ''us''\<rparr>], pageCount = 1,
        consecutiveEmptyPages = 0\<rparr>"
    using gap(1,2)
      app_store_fetch_loops [where store = gapStore and st = initialState and maxPages = 20
        and countryCode = "''us''"]
    by (simp add: initialState_def)
  have d: "pageCount (scrapeCountryLoopApple fullStore ''us'' 3 initialState) = 3
      \<and> (\<exists>collected. fetchLoop fullStore [] 0 = Inr (collected, 200))"
    using full
      app_store_fetch_loops [where store = fullStore and st = initialState and maxPages = 3
        and countryCode = "''us''"]
    by simp
  have e: "fetchLoop gapStore [] 0 = Inr ([fourStars, fourStars, sixStars], 3)"
    using gap(3,4,5)
      app_store_fetch_loops [where store = gapStore and k = 3]
    by simp
  show ?thesis using a b c d e by simp
qed

section \<open>The order of the worldwide output\<close>

lemma mset_insertSorted: "mset (insertSorted compare x xs) = add_mset x (mset xs)"
  by (induction xs) auto

lemma set_insertSorted: "set (insertSorted compare x xs) = insert x (set xs)"
  by (induction xs) auto

lemma mset_jsSort: "mset (jsSort compare xs) = mset xs"
  by (induction xs) (auto simp: jsSort_def mset_insertSorted)

lemma dateCompare_valid:
  "newDate dateParse (greview.date a) \<noteq> None \<Longrightarrow> newDate dateParse (greview.date b) \<noteq> None \<Longrightarrow>
     dateCompare dateParse a b = reviewTime dateParse b - reviewTime dateParse a"
  by (auto simp: dateCompare_def reviewTime_def)

lemma sorted_insertSorted:
  assumes "newDate dateParse (greview.date x) \<noteq> None"
    and "\<forall>r \<in> set xs. newDate dateParse (greview.date r) \<noteq> None"
    and "sorted_wrt (\<lambda>a b. reviewTime dateParse b \<le> reviewTime dateParse a) xs"
  shows "sorted_wrt (\<lambda>a b. reviewTime dateParse b \<le> reviewTime dateParse a)
           (insertSorted (dateCompare dateParse) x xs)"
  using assms
proof (induction xs)
  case Nil
  show ?case by simp
next
  case (Cons y ys)
  from Cons.prems have c: "dateCompare dateParse x y = reviewTime dateParse y - reviewTime dateParse x"
    by (simp add: dateCompare_valid)
  show ?case
  proof (cases "dateCompare dateParse x y \<le> 0")
    case True
    with c have "reviewTime dateParse y \<le> reviewTime dateParse x" by simp
    with Cons.prems True show ?thesis by fastforce
  next
    case False
    with c have "reviewTime dateParse x \<le> reviewTime dateParse y" by simp
    with Cons False show ?thesis by (auto simp: set_insertSorted)
  qed
qed

lemma sorted_jsSort:
  "\<forall>r \<in> set xs. newDate dateParse (greview.date r) \<noteq> None \<Longrightarrow>
     sorted_wrt (\<lambda>a b. reviewTime dateParse b \<le> reviewTime dateParse a)
       (jsSort (dateCompare dateParse) xs)"
proof (induction xs)
  case Nil
  show ?case by (simp add: jsSort_def)
next
  case (Cons x xs)
  then have s: "sorted_wrt (\<lambda>a b. reviewTime dateParse b \<le> reviewTime dateParse a)
       (jsSort (dateCompare dateParse) xs)" by simp
  have v: "\<forall>r \<in> set (jsSort (dateCompare dateParse) xs). newDate dateParse (greview.date r) \<noteq> None"
    using Cons.prems mset_jsSort [of "dateCompare dateParse" xs] by (metis list.set_intros(2) set_mset_mset)
  have "jsSort (dateCompare dateParse) (x # xs)
      = insertSorted (dateCompare dateParse) x (jsSort (dateCompare dateParse) xs)"
    by (simp add: jsSort_def)
  with sorted_insertSorted [OF _ v s, of x] Cons.prems show ?case by simp
qed

lemma mapE_list_all2:
  "mapE f xs = Inr ys \<Longrightarrow> list_all2 (\<lambda>x y. f x = Inr y) xs ys"
  by (induction xs arbitrary: ys) (auto split: sum.splits)

lemma map_enumerate_snd: "map (\<lambda>(i, r). g r) (enumerate n xs) = map g xs"
  by (induction xs arbitrary: n) auto

lemma jsonDataGlobal_dates:
  "map gcanonical.date (jsonDataGlobal stamps rs) = map (\<lambda>r. jsOr (greview.date r) (JStr [])) rs"
proof -
  have "map gcanonical.date (jsonDataGlobal stamps rs)
      = map (\<lambda>(i, r). jsOr (greview.date r) (JStr [])) (enumerate 0 rs)"
    by (simp add: jsonDataGlobal_def jsonEntryGlobal_def case_prod_unfold)
  then show ?thesis by (simp add: map_enumerate_snd)
qed

lemma undated_dedup:
  "removeDuplicates [annLee, undatedReview, marchReview] = [annLee, undatedReview, marchReview]"
  by (simp add: removeDuplicates_def reviewKey_def annLee_def undatedReview_def marchReview_def)

text \<open>
  C10, as stated, fails: a surviving record without a date makes the comparator give
  \<^verbatim>\<open>NaN\<close> against both of its neighbours, the sort leaves the three records in their
  first-seen order, and the output has the record of January before the record of March.
\<close>

theorem undated_record_breaks_date_order:
  "sortedReviewsGlobal dayParse [annLee, undatedReview, marchReview]
     = [annLee, undatedReview, marchReview]
   \<and> reviewTime dayParse annLee < reviewTime dayParse marchReview
   \<and> map gcanonical.date
         (jsonDataGlobal fixedStamp (sortedReviewsGlobal dayParse [annLee, undatedReview, marchReview]))
       = [JStr ''2024-01-15'', JStr [], JStr ''2024-03-02'']"
proof -
  have s: "sortedReviewsGlobal dayParse [annLee, undatedReview, marchReview]
     = [annLee, undatedReview, marchReview]"
    by (simp add: sortedReviewsGlobal_def undated_dedup jsSort_def dateCompare_def)
       (simp add: annLee_def undatedReview_def marchReview_def dayParse_def timeClip_def)
  have t: "reviewTime dayParse annLee < reviewTime dayParse marchReview"
    by (simp add: reviewTime_def annLee_def marchReview_def dayParse_def timeClip_def)
  have d: "map gcanonical.date (jsonDataGlobal fixedStamp [annLee, undatedReview, marchReview])
       = [JStr ''2024-01-15'', JStr [], JStr ''2024-03-02'']"
    by (simp add: jsonDataGlobal_dates jsOr_def annLee_def undatedReview_def marchReview_def)
  show ?thesis using s t d by simp
qed

text \<open>
  C10, amended. After deduplication the worldwide script sorts the surviving records with
  the comparator on their dates and then serializes them. When the date of every surviving
  record is a valid date, the sorted sequence is a rearrangement of the deduplicated one in
  descending order of the dates, most recent first; the lines of the CSV after the header
  are the lines of the sorted records in that order, and so are the objects of the JSON.
\<close>

theorem worldwide_output_sorted_by_date:
  "(\<forall>r \<in> set (removeDuplicates allGlobalReviews). newDate dateParse (greview.date r) \<noteq> None) \<longrightarrow>
     sorted_wrt (\<lambda>a b. reviewTime dateParse b \<le> reviewTime dateParse a)
       (sortedReviewsGlobal dateParse allGlobalReviews)
     \<and> mset (sortedReviewsGlobal dateParse allGlobalReviews) = mset (removeDuplicates allGlobalReviews)
     \<and> (outputsGlobal dateParse stamps allGlobalReviews = Inr (csv, entries) \<longrightarrow>
          (\<exists>rows. list_all2 (\<lambda>r row. csvRowGlobal r = Inr row)
                    (sortedReviewsGlobal dateParse allGlobalReviews) rows
                \<and> csv = ''Date,Country,User Name,Score,Review Text,Helpful Count,Reply Date,Reply Text''
                        @ [CHR 0x0A] @ joinLines [CHR 0x0A] rows)
          \<and> map gcanonical.date entries
              = map (\<lambda>r. jsOr (greview.date r) (JStr [])) (sortedReviewsGlobal dateParse allGlobalReviews))"
proof (intro impI conjI)
  assume v: "\<forall>r \<in> set (removeDuplicates allGlobalReviews). newDate dateParse (greview.date r) \<noteq> None"
  from sorted_jsSort [OF v]
  show "sorted_wrt (\<lambda>a b. reviewTime dateParse b \<le> reviewTime dateParse a)
       (sortedReviewsGlobal dateParse allGlobalReviews)"
    by (simp add: sortedReviewsGlobal_def)
  show "mset (sortedReviewsGlobal dateParse allGlobalReviews) = mset (removeDuplicates allGlobalReviews)"
    by (simp add: sortedReviewsGlobal_def mset_jsSort)
  assume o: "outputsGlobal dateParse stamps allGlobalReviews = Inr (csv, entries)"
  then obtain rows where rows: "mapE csvRowGlobal (sortedReviewsGlobal dateParse allGlobalReviews) = Inr rows"
    and csv: "csv = ''Date,Country,User Name,Score,Review Text,Helpful Count,Reply Date,Reply Text''
                        @ [CHR 0x0A] @ joinLines [CHR 0x0A] rows"
    by (auto simp: outputsGlobal_def csvGlobal_def split: sum.splits)
  from mapE_list_all2 [OF rows] csv
  show "\<exists>rows. list_all2 (\<lambda>r row. csvRowGlobal r = Inr row)
                    (sortedReviewsGlobal dateParse allGlobalReviews) rows
                \<and> csv = ''Date,Country,User Name,Score,Review Text,Helpful Count,Reply Date,Reply Text''
                        @ [CHR 0x0A] @ joinLines [CHR 0x0A] rows"
    by blast
  from o have "entries = jsonDataGlobal stamps (sortedReviewsGlobal dateParse allGlobalReviews)"
    by (auto simp: outputsGlobal_def split: sum.splits)
  then show "map gcanonical.date entries
              = map (\<lambda>r. jsOr (greview.date r) (JStr [])) (sortedReviewsGlobal dateParse allGlobalReviews)"
    by (simp add: jsonDataGlobal_dates)
qed


lemma world_dedup: "removeDuplicates [annLee, ann, marchReview] = [annLee, marchReview]"
  by (simp add: removeDuplicates_def reviewKey_def annLee_def ann_def marchReview_def)

lemma world_sorted: "sortedReviewsGlobal dayParse [annLee, ann, marchReview] = [marchReview, annLee]"
  by (simp add: sortedReviewsGlobal_def world_dedup jsSort_def dateCompare_def)
     (simp add: annLee_def marchReview_def dayParse_def timeClip_def)

lemma world_rows:
  "csvRowGlobal marchReview =
     Inr (joinLines '',''
           [quoted ''2024-03-02'', quoted ''gb'', quoted ''Bo'', quoted ''5'', quoted ''Works'',
            quoted ''2'', quoted [], quoted []])"
  "csvRowGlobal annLee =
     Inr (joinLines '',''
           [quoted ''2024-01-15'', quoted ''us'', quoted ''Ann_Lee'', quoted ''4'', quoted ''ok'',
            quoted [], quoted [], quoted []])"
  by (simp_all add: csvRowGlobal_def marchReview_def annLee_def jsOr_def doubleQuotes_def
        showInt_def showNat.simps digitChar_def)

lemma world_outputs:
  "outputsGlobal dayParse fixedStamp [annLee, ann, marchReview] = Inr (worldCsv, worldEntries)"
  by (simp add: outputsGlobal_def world_sorted csvGlobal_def world_rows worldCsv_def
        jsonDataGlobal_def enumerate_eq_zip fixedStamp_def)
     (simp add: worldEntries_def jsonEntryGlobal_def marchReview_def annLee_def jsOr_def)

theorem worldwide_output_sorted_by_date_witness:
  "removeDuplicates [annLee, ann, marchReview] = [annLee, marchReview]
   \<and> sortedReviewsGlobal dayParse [annLee, ann, marchReview] = [marchReview, annLee]
   \<and> sorted_wrt (\<lambda>a b. reviewTime dayParse b \<le> reviewTime dayParse a) [marchReview, annLee]
   \<and> mset [marchReview, annLee] = mset [annLee, marchReview]
   \<and> outputsGlobal dayParse fixedStamp [annLee, ann, marchReview] = Inr (worldCsv, worldEntries)
   \<and> map gcanonical.date worldEntries = [JStr ''2024-03-02'', JStr ''2024-01-15'']"
proof -
  have v: "\<forall>r \<in> set (removeDuplicates [annLee, ann, marchReview]).
      newDate dayParse (greview.date r) \<noteq> None"
    unfolding world_dedup
    by (simp add: annLee_def marchReview_def dayParse_def timeClip_def)
  have d: "jsOr (greview.date marchReview) (JStr []) = JStr ''2024-03-02''"
    "jsOr (greview.date annLee) (JStr []) = JStr ''2024-01-15''"
    by (simp_all add: jsOr_def marchReview_def annLee_def)
  show ?thesis
    using v d world_dedup world_sorted world_outputs
      worldwide_output_sorted_by_date [where allGlobalReviews = "[annLee, ann, marchReview]"
        and dateParse = dayParse and stamps = fixedStamp and csv = worldCsv
        and entries = worldEntries]
    by simp
qed

end
